theory Spec2Isabelle
  imports Complex_Main
begin

section \<open>Numbers, errors and points\<close>

text \<open>
  JavaScript numbers are modelled as reals: arithmetic is the exact one, \<open>Math.PI\<close> is
  \<open>pi\<close>, \<open>Math.sin\<close> and \<open>Math.cos\<close> are \<open>sin\<close> and \<open>cos\<close>, and there is no NaN.
  An exception thrown by the code is an \<open>Inl\<close> result.
\<close>

datatype error =
    TypeError          \<comment> \<open>reading a property of \<open>null\<close> or \<open>undefined\<close>\<close>
  | MissingMetadata    \<comment> \<open>\<open>Error("Missing metadata for creating the component")\<close>\<close>

text \<open>\<open>SVG.Point\<close>: the fields \<open>x\<close> and \<open>y\<close>.\<close>

record Point =
  px :: real
  py :: real

text \<open>\<open>PointAlike\<close>: an object with \<open>x\<close> and \<open>y\<close>, or an array \<open>[x, y]\<close>.\<close>

datatype PointAlike = PointObj real real | PointArr real real

fun isArray :: "PointAlike \<Rightarrow> bool" where
  "isArray (PointArr a b) = True"
| "isArray (PointObj a b) = False"

fun elem0 :: "PointAlike \<Rightarrow> real" where
  "elem0 (PointArr a b) = a"
| "elem0 (PointObj a b) = a"

fun elem1 :: "PointAlike \<Rightarrow> real" where
  "elem1 (PointArr a b) = b"
| "elem1 (PointObj a b) = b"

text \<open>\<open>Number.isInteger\<close>, and \<open>%\<close> on integral values (the sign of the dividend).\<close>

definition isInteger :: "real \<Rightarrow> bool" where
  "isInteger r = (of_int \<lfloor>r\<rfloor> = r)"

definition js_rem :: "int \<Rightarrow> int \<Rightarrow> int" where
  "js_rem a b = sgn a * (\<bar>a\<bar> mod \<bar>b\<bar>)"

section \<open>SnapPoint (snapPoint.js)\<close>

text \<open>
  The owning instance, as far as the snap point reads it: its node name and its mid.
\<close>

record Instance =
  nodeName :: "string option"
  instanceMid :: "PointAlike option"

text \<open>
  A change listener is an opaque callback. It is modelled by an identifier, and every call
  is recorded: the identifier, the coordinates of the point at the time of the call, and
  the arguments \<open>oldX\<close>, \<open>oldY\<close>, \<open>isDeleted\<close>. Listeners are taken not to call back
  into the snap point.
\<close>

record Notification =
  listener :: nat
  atX :: real
  atY :: real
  oldX :: real
  oldY :: real
  isDeleted :: bool

text \<open>
  \<open>class SnapPoint extends Point\<close>, after its constructor has set the mid point and
  the angle.
\<close>

record SnapPoint = Point +
  instanceRef :: "Instance option"
  anchorName :: "string option"
  midPoint :: PointAlike
  relPosition :: PointAlike
  angle :: real
  inDegree :: bool
  changeListeners :: "nat list"
  notified :: "Notification list"

text \<open>Lines 69 to 81 of \<open>recalculate\<close>: the sine and the cosine of the stored angle.\<close>

definition sinCos :: "bool \<Rightarrow> real \<Rightarrow> real \<times> real" where
  "sinCos inDeg a =
    (let quadrant = (if inDeg then a / 90 else (a * 180) / pi) in
     if isInteger quadrant then
       (let q = js_rem \<lfloor>quadrant\<rfloor> 4;
            q = (if q < 0 then q + 4 else q)
        in ([0, 1, 0, - 1] ! nat q, [1, 0, - 1, 0] ! nat q))
     else (sin a, cos a))"

definition notifyAll :: "real \<Rightarrow> real \<Rightarrow> bool \<Rightarrow> SnapPoint \<Rightarrow> SnapPoint" where
  "notifyAll ox oy del sp =
    sp\<lparr>notified := notified sp @
      map (\<lambda>l. \<lparr>listener = l, atX = px sp, atY = py sp, oldX = ox, oldY = oy, isDeleted = del\<rparr>)
        (changeListeners sp)\<rparr>"

definition recalculate :: "PointAlike option \<Rightarrow> real option \<Rightarrow> SnapPoint \<Rightarrow> SnapPoint" where
  "recalculate newMid newAngle sp =
    (let sp = (case newMid of Some m \<Rightarrow> sp\<lparr>midPoint := m\<rparr> | None \<Rightarrow> sp);
         sp = (case newAngle of Some a \<Rightarrow> sp\<lparr>angle := a\<rparr> | None \<Rightarrow> sp);
         (sn, cs) = sinCos (inDegree sp) (angle sp);
         relPosX = (if isArray (relPosition sp) then elem0 (relPosition sp) else elem0 (relPosition sp));
         relPosY = (if isArray (relPosition sp) then elem1 (relPosition sp) else elem1 (relPosition sp));
         anchorPosX = (if isArray (midPoint sp) then elem0 (midPoint sp) else elem0 (midPoint sp));
         anchorPosY = (if isArray (midPoint sp) then elem1 (midPoint sp) else elem1 (midPoint sp));
         ox = px sp;
         oy = py sp;
         sp = sp\<lparr>px := cs * relPosX + sn * relPosY + anchorPosX,
                 py := - sn * relPosX + cs * relPosY + anchorPosY\<rparr>
     in notifyAll ox oy False sp)"

definition removeInstance :: "SnapPoint \<Rightarrow> SnapPoint" where
  "removeInstance sp =
    (let sp = notifyAll (px sp) (py sp) True sp
     in sp\<lparr>instanceRef := None, anchorName := None\<rparr>)"

definition addChangeListener :: "nat \<Rightarrow> SnapPoint \<Rightarrow> SnapPoint" where
  "addChangeListener l sp = sp\<lparr>changeListeners := changeListeners sp @ [l]\<rparr>"

text \<open>
  The constructor: \<open>super()\<close> puts the point at the origin, the fields are stored, and
  \<open>recalculate(mid || this.#instance.mid, angle)\<close> runs. Without any mid point the
  read of the mid's coordinates throws.
\<close>

definition newSnapPoint ::
    "Instance option \<Rightarrow> string option \<Rightarrow> PointAlike option \<Rightarrow> PointAlike \<Rightarrow> real \<Rightarrow> bool
      \<Rightarrow> error + SnapPoint" where
  "newSnapPoint inst aName md relPos ang inDeg =
    (case (case md of Some m \<Rightarrow> Some m
           | None \<Rightarrow> (case inst of None \<Rightarrow> None | Some i \<Rightarrow> instanceMid i)) of
       None \<Rightarrow> Inl TypeError
     | Some m \<Rightarrow>
         Inr (recalculate (Some m) (Some ang)
           \<lparr>px = 0, py = 0, instanceRef = inst, anchorName = aName, midPoint = m,
            relPosition = relPos, angle = ang, inDegree = inDeg, changeListeners = [],
            notified = []\<rparr>))"

text \<open>
  The specification's invariant \<open>position = rotate(offset, angle) + midPoint\<close>, with the
  angle in radians and the orientation of lines 92 and 93.
\<close>

definition rotate_spec :: "real \<times> real \<Rightarrow> real \<Rightarrow> real \<times> real" where
  "rotate_spec off a = (cos a * fst off + sin a * snd off, - sin a * fst off + cos a * snd off)"

definition position_spec :: "PointAlike \<Rightarrow> real \<Rightarrow> PointAlike \<Rightarrow> real \<times> real" where
  "position_spec rel a m =
    (fst (rotate_spec (elem0 rel, elem1 rel) a) + elem0 m,
     snd (rotate_spec (elem0 rel, elem1 rel) a) + elem1 m)"

text \<open>A snap point in radian mode with the offset \<open>(1, 0)\<close>, placed at the origin.\<close>

definition radianPoint :: SnapPoint where
  "radianPoint =
    \<lparr>px = 1, py = 0, instanceRef = None, anchorName = None, midPoint = PointObj 0 0,
     relPosition = PointObj 1 0, angle = 0, inDegree = False, changeListeners = [],
     notified = []\<rparr>"

section \<open>LineDrawer (lineDrawer.js)\<close>

text \<open>
  The class \<open>Line\<close> is not among the sources. A line in creation is modelled by what
  the drawer hands to it: the start point of \<open>new Line(p)\<close>, the arguments of every
  \<open>pushPoint\<close>, and the arguments of the last \<open>updateMousePoint\<close>, which
  \<open>removeMousePoint\<close> forgets.
\<close>

record Line =
  startPoint :: Point
  pushedPoints :: "(bool \<times> Point) list"
  mousePoint :: "(bool \<times> Point) option"

definition newLineAt :: "Point \<Rightarrow> Line" where
  "newLineAt p = \<lparr>startPoint = p, pushedPoints = [], mousePoint = None\<rparr>"

definition pushPoint :: "bool \<Rightarrow> Point \<Rightarrow> Line \<Rightarrow> Line" where
  "pushPoint hf p l = l\<lparr>pushedPoints := pushedPoints l @ [(hf, p)]\<rparr>"

definition updateMousePoint :: "bool \<Rightarrow> Point \<Rightarrow> Line \<Rightarrow> Line" where
  "updateMousePoint hf p l = l\<lparr>mousePoint := Some (hf, p)\<rparr>"

definition removeMousePoint :: "Line \<Rightarrow> Line" where
  "removeMousePoint l = l\<lparr>mousePoint := None\<rparr>"

record LineDirection =
  up :: bool
  right :: bool
  down :: bool
  left :: bool

text \<open>
  The fields of the drawer, the state of the two controllers it drives (the snap cursor
  and the floating buttons) and the lines handed to \<open>mainController.addLine\<close>.
  \<open>wasAboveXAxis\<close> and \<open>wasRightOfYAxis\<close> are \<open>undefined\<close> until the first move.
\<close>

record LineDrawer =
  newLine :: "Line option"
  lastPoint :: "Point option"
  horizontalFirst :: bool
  holdDirectionSet :: bool
  lastLineDirection :: LineDirection
  wasAboveXAxis :: "bool option"
  wasRightOfYAxis :: "bool option"
  snapCursorVisible :: bool
  snapCursorAt :: "Point option"
  fabVisible :: bool
  addedLines :: "Line list"

definition noDirection :: LineDirection where
  "noDirection = \<lparr>up = False, right = False, down = False, left = False\<rparr>"

text \<open>The drawer as the field initialisers and the constructor leave it.\<close>

definition initialDrawer :: LineDrawer where
  "initialDrawer =
    \<lparr>newLine = None, lastPoint = None, horizontalFirst = False, holdDirectionSet = False,
     lastLineDirection = noDirection, wasAboveXAxis = None, wasRightOfYAxis = None,
     snapCursorVisible = False, snapCursorAt = None, fabVisible = False, addedLines = []\<rparr>"

definition resetVars :: "LineDrawer \<Rightarrow> LineDrawer" where
  "resetVars s =
    s\<lparr>newLine := None, lastPoint := None, holdDirectionSet := False,
      lastLineDirection := lastLineDirection s\<lparr>up := False, right := False, down := False, left := False\<rparr>\<rparr>"

text \<open>
  The listeners take the snapped point, that is, the result of \<open>pointerEventToPoint\<close>
  followed by \<open>SnapController.snapPoint\<close> (or the raw point under shift).
\<close>

definition clickListener :: "Point \<Rightarrow> LineDrawer \<Rightarrow> error + LineDrawer" where
  "clickListener snappedPoint s =
    (case lastPoint s of
       None \<Rightarrow>
         Inr (s\<lparr>snapCursorVisible := False, newLine := Some (newLineAt snappedPoint),
                lastPoint := Some snappedPoint\<rparr>)
     | Some lp \<Rightarrow>
         if px lp = px snappedPoint \<and> py lp = py snappedPoint then Inr s
         else
           (case newLine s of
              None \<Rightarrow> Inl TypeError
            | Some l \<Rightarrow>
                (let s = s\<lparr>newLine := Some (pushPoint (horizontalFirst s) snappedPoint l)\<rparr>;
                     secondLastPoint = lp;
                     s = s\<lparr>lastPoint := Some snappedPoint\<rparr>;
                     s = (if (horizontalFirst s \<or> px snappedPoint = px secondLastPoint)
                             \<and> py snappedPoint \<noteq> py secondLastPoint
                          then s\<lparr>lastLineDirection :=
                                 \<lparr>up = py snappedPoint < py secondLastPoint, right = False,
                                  down = py snappedPoint > py secondLastPoint, left = False\<rparr>\<rparr>
                          else s\<lparr>lastLineDirection :=
                                 \<lparr>up = False, right = px snappedPoint > px secondLastPoint,
                                  down = False, left = px snappedPoint < px secondLastPoint\<rparr>\<rparr>)
                 in Inr (s\<lparr>fabVisible := True\<rparr>))))"

definition moveListener :: "Point \<Rightarrow> LineDrawer \<Rightarrow> error + LineDrawer" where
  "moveListener snappedPoint s =
    (case newLine s of
       None \<Rightarrow> Inr (s\<lparr>snapCursorAt := Some snappedPoint\<rparr>)
     | Some l \<Rightarrow>
         (case lastPoint s of
            None \<Rightarrow> Inl TypeError
          | Some lp \<Rightarrow>
              (let isAboveXAxis = py snappedPoint < py lp;
                   isRightOfYAxis = px snappedPoint > px lp;
                   s = (if holdDirectionSet s then
                          (if wasAboveXAxis s \<noteq> Some isAboveXAxis then s\<lparr>horizontalFirst := True\<rparr>
                           else if wasRightOfYAxis s \<noteq> Some isRightOfYAxis
                             then s\<lparr>horizontalFirst := False\<rparr>
                           else s)
                        else
                          (let deltaX = px snappedPoint - px lp;
                               deltaY = py snappedPoint - py lp
                           in s\<lparr>horizontalFirst := deltaX > deltaY, holdDirectionSet := True\<rparr>));
                   s = s\<lparr>wasAboveXAxis := Some isAboveXAxis, wasRightOfYAxis := Some isRightOfYAxis\<rparr>;
                   s = (if (left (lastLineDirection s) \<and> isRightOfYAxis)
                             \<or> (right (lastLineDirection s) \<and> \<not> isRightOfYAxis)
                          then s\<lparr>horizontalFirst := False\<rparr>
                        else if (down (lastLineDirection s) \<and> isAboveXAxis)
                             \<or> (up (lastLineDirection s) \<and> \<not> isAboveXAxis)
                          then s\<lparr>horizontalFirst := True\<rparr>
                        else s)
               in Inr (s\<lparr>newLine := Some (updateMousePoint (horizontalFirst s) snappedPoint l)\<rparr>))))"

definition onCancel :: "LineDrawer \<Rightarrow> LineDrawer" where
  "onCancel s = (resetVars s)\<lparr>fabVisible := False, snapCursorVisible := True\<rparr>"

definition lineEnd :: "LineDrawer \<Rightarrow> error + LineDrawer" where
  "lineEnd s =
    (case newLine s of
       None \<Rightarrow> Inl TypeError
     | Some l \<Rightarrow>
         Inr ((resetVars (s\<lparr>addedLines := addedLines s @ [removeMousePoint l]\<rparr>))
               \<lparr>fabVisible := False, snapCursorVisible := True\<rparr>))"

definition activate :: "LineDrawer \<Rightarrow> LineDrawer" where
  "activate s = (resetVars s)\<lparr>snapCursorVisible := True\<rparr>"

text \<open>The pointer events of one drawing session, handled in order.\<close>

datatype LineEvent = Click Point | Move Point | Done | Cancel

fun lineStep :: "LineEvent \<Rightarrow> LineDrawer \<Rightarrow> error + LineDrawer" where
  "lineStep (Click p) s = clickListener p s"
| "lineStep (Move p) s = moveListener p s"
| "lineStep Done s = lineEnd s"
| "lineStep Cancel s = Inr (onCancel s)"

fun lineRun :: "LineEvent list \<Rightarrow> LineDrawer \<Rightarrow> error + LineDrawer" where
  "lineRun [] s = Inr s"
| "lineRun (e # es) s = (case lineStep e s of Inl err \<Rightarrow> Inl err | Inr s' \<Rightarrow> lineRun es s')"

definition pt :: "real \<Rightarrow> real \<Rightarrow> Point" where
  "pt a b = \<lparr>px = a, py = b\<rparr>"

text \<open>The drawer right after the first click of a session, at the origin.\<close>

definition startedAtOrigin :: LineDrawer where
  "startedAtOrigin = projr (lineRun [Click (pt 0 0)] (activate initialDrawer))"

text \<open>
  The drawer after a first segment from the origin to \<open>(5, 0)\<close> has been committed:
  click, move, click.
\<close>

definition afterSegmentRight :: LineDrawer where
  "afterSegmentRight =
    projr (lineRun [Click (pt 0 0), Move (pt 5 0), Click (pt 5 0)] (activate initialDrawer))"

text \<open>The same with a first segment from the origin down to \<open>(0, 5)\<close>.\<close>

definition afterSegmentDown :: LineDrawer where
  "afterSegmentDown =
    projr (lineRun [Click (pt 0 0), Move (pt 0 5), Click (pt 0 5)] (activate initialDrawer))"

text \<open>
  Lines 192 to 206 of \<open>#moveListener\<close>: the direction that the lock gives, before the
  override of lines 211 to 215. \<open>lp\<close> is the last fixed point.
\<close>

definition lockedDirection :: "Point \<Rightarrow> Point \<Rightarrow> LineDrawer \<Rightarrow> bool" where
  "lockedDirection snappedPoint lp s =
    (if holdDirectionSet s then
       (if wasAboveXAxis s \<noteq> Some (py snappedPoint < py lp) then True
        else if wasRightOfYAxis s \<noteq> Some (px snappedPoint > px lp) then False
        else horizontalFirst s)
     else px snappedPoint - px lp > py snappedPoint - py lp)"

text \<open>
  Modelled from the spec: the class \<open>Line\<close>, which draws the provisional path, is not
  among the sources. Following "a provisional two-segment orthogonal path from start to
  the live cursor position", which "goes horizontal-then-vertical or
  vertical-then-horizontal", \<open>firstLeg\<close> is the direction in which the path from the last
  fixed point \<open>lp\<close> to the cursor \<open>q\<close> leaves \<open>lp\<close>: the direction of its first leg, or
  of its second leg where the first one is empty.
\<close>

definition firstLeg :: "bool \<Rightarrow> Point \<Rightarrow> Point \<Rightarrow> LineDirection" where
  "firstLeg hf lp q =
    (if (if hf then px q \<noteq> px lp else py q = py lp)
     then \<lparr>up = False, right = px q > px lp, down = False, left = px q < px lp\<rparr>
     else \<lparr>up = py q < py lp, right = False, down = py q > py lp, left = False\<rparr>)"

text \<open>
  A path doubles back when it leaves the last fixed point against the direction in
  which the preceding segment arrived there, that is, it runs back over that segment.
\<close>

definition doublesBack :: "LineDirection \<Rightarrow> LineDirection \<Rightarrow> bool" where
  "doublesBack prev leg =
    (if right prev \<and> left leg then True
     else if left prev \<and> right leg then True
     else if up prev \<and> down leg then True
     else down prev \<and> up leg)"

text \<open>
  The recorded direction names at most one direction, as \<open>#resetVars\<close> and
  \<open>#clickListener\<close> leave it. The cursor is off the axis of the preceding segment: not
  level with the last fixed point after a horizontal segment, not straight above or
  below it after a vertical one.
\<close>

definition atMostOneDirection :: "LineDirection \<Rightarrow> bool" where
  "atMostOneDirection d =
    (length (filter id [up d, right d, down d, left d]) \<le> 1)"

definition offAxis :: "LineDirection \<Rightarrow> Point \<Rightarrow> Point \<Rightarrow> bool" where
  "offAxis d lp q =
    (if left d \<or> right d then py q \<noteq> py lp
     else if up d \<or> down d then px q \<noteq> px lp
     else True)"

section \<open>SelectionController (selectionController.js)\<close>

text \<open>\<open>SVG.Box\<close> of svg.js, with its derived centre and its \<open>merge\<close>.\<close>

record Box =
  box_x :: real
  box_y :: real
  box_width :: real
  box_height :: real

definition cx :: "Box \<Rightarrow> real" where
  "cx b = box_x b + box_width b / 2"

definition cy :: "Box \<Rightarrow> real" where
  "cy b = box_y b + box_height b / 2"

definition box_merge :: "Box \<Rightarrow> Box \<Rightarrow> Box" where
  "box_merge a b =
    (let x = min (box_x a) (box_x b);
         y = min (box_y a) (box_y b)
     in \<lparr>box_x = x, box_y = y,
         box_width = max (box_x a + box_width a) (box_x b + box_width b) - x,
         box_height = max (box_y a + box_height a) (box_y b + box_height b) - y\<rparr>)"

definition minusPoint :: "Point \<Rightarrow> Point \<Rightarrow> Point" where
  "minusPoint p q = \<lparr>px = px p - px q, py = py p - py q\<rparr>"

text \<open>
  The classes \<open>Line\<close> and \<open>ComponentInstance\<close> are not among the sources. A selectable
  object is modelled by what the controller reads of it when an operation starts (its
  \<open>bbox()\<close>, its \<open>getAnchorPoint()\<close>, whether it is a \<open>NodeComponentInstance\<close>) and by
  the list of the calls the controller has made on it, in order. Objects are mutable and
  shared between the document's arrays and the selection arrays, so they live in a heap
  and the arrays hold their addresses.
\<close>

datatype Call =
    Flip bool
  | Rotate real
  | MoveRel Point
  | MoveTo Point
  | RecalculateSnappingPoints
  | ShowBoundingBox
  | HideBoundingBox

record Shape =
  bbox :: Box
  anchorPoint :: Point
  isNodeInstance :: bool
  calls :: "Call list"

datatype SelectionMode = RESET | ADD | SUB

record SelectionController =
  selectionMode :: SelectionMode
  instances :: "nat list"
  lines :: "nat list"
  selectionStartPosition :: Point
  selectionRectangle :: Box
  currentlyDragging :: bool
  currentlySelectedComponents :: "nat list"
  currentlySelectedLines :: "nat list"
  selectionEnabled :: bool
  heap :: "nat \<Rightarrow> Shape"

definition call :: "Call \<Rightarrow> nat \<Rightarrow> SelectionController \<Rightarrow> SelectionController" where
  "call c obj s = s\<lparr>heap := (heap s)(obj := (heap s obj)\<lparr>calls := calls (heap s obj) @ [c]\<rparr>)\<rparr>"

text \<open>
  \<open>#showSelection\<close>, the preview pass. The method \<open>isInsideSelectionRectangle\<close> of the
  objects is a parameter.
\<close>

definition showInstance ::
    "(Shape \<Rightarrow> Box \<Rightarrow> bool) \<Rightarrow> Box \<Rightarrow> SelectionController \<Rightarrow> nat \<Rightarrow> SelectionController" where
  "showInstance inside selectionBox s instance =
    (let cond =
       (if selectionMode s = RESET then inside (heap s instance) selectionBox
        else if selectionMode s = ADD then
          inside (heap s instance) selectionBox \<or> instance \<in> set (currentlySelectedComponents s)
        else
          \<not> inside (heap s instance) selectionBox \<and> instance \<in> set (currentlySelectedComponents s))
     in if cond then call ShowBoundingBox instance s else call HideBoundingBox instance s)"

definition showLine ::
    "(Shape \<Rightarrow> Box \<Rightarrow> bool) \<Rightarrow> Box \<Rightarrow> SelectionController \<Rightarrow> nat \<Rightarrow> SelectionController" where
  "showLine inside selectionBox s line =
    (let cond =
       (if selectionMode s = RESET then inside (heap s line) selectionBox
        else if selectionMode s = ADD then
          inside (heap s line) selectionBox \<or> line \<in> set (currentlySelectedLines s)
        else
          \<not> inside (heap s line) selectionBox \<and> line \<in> set (currentlySelectedLines s))
     in if cond then call ShowBoundingBox line s else call HideBoundingBox line s)"

definition showSelection_private ::
    "(Shape \<Rightarrow> Box \<Rightarrow> bool) \<Rightarrow> SelectionController \<Rightarrow> SelectionController" where
  "showSelection_private inside s =
    (let selectionBox = selectionRectangle s;
         s = foldl (showInstance inside selectionBox) s (instances s)
     in foldl (showLine inside selectionBox) s (lines s))"

text \<open>The \<open>mousemove\<close> handler of the constructor; \<open>p\<close> is \<open>pointerEventToPoint(evt, false)\<close>.\<close>

definition mousemove ::
    "(Shape \<Rightarrow> Box \<Rightarrow> bool) \<Rightarrow> Point \<Rightarrow> SelectionController \<Rightarrow> SelectionController" where
  "mousemove inside p s =
    (if currentlyDragging s then
       (let dx = px p - px (selectionStartPosition s);
            dy = py p - py (selectionStartPosition s);
            moveX = px (selectionStartPosition s);
            moveY = py (selectionStartPosition s);
            (moveX, dx) = (if dx < 0 then (moveX + dx, - dx) else (moveX, dx));
            (moveY, dy) = (if dy < 0 then (moveY + dy, - dy) else (moveY, dy));
            s = s\<lparr>selectionRectangle :=
                   \<lparr>box_x = moveX, box_y = moveY, box_width = dx, box_height = dy\<rparr>\<rparr>
        in showSelection_private inside s)
     else s)"

definition hasSelection :: "SelectionController \<Rightarrow> bool" where
  "hasSelection s =
    (length (currentlySelectedComponents s) > 0 \<or> length (currentlySelectedLines s) > 0)"

definition mergeInto :: "(nat \<Rightarrow> Shape) \<Rightarrow> Box option \<Rightarrow> nat \<Rightarrow> Box option" where
  "mergeInto h b obj =
    (case b of None \<Rightarrow> Some (bbox (h obj)) | Some b' \<Rightarrow> Some (box_merge b' (bbox (h obj))))"

definition getOverallBoundingBox :: "SelectionController \<Rightarrow> Box option" where
  "getOverallBoundingBox s =
    (let b = foldl (mergeInto (heap s)) None (currentlySelectedLines s)
     in foldl (mergeInto (heap s)) b (currentlySelectedComponents s))"

text \<open>
  \<open>rotateSelection\<close>. \<open>SVG.Point.rotate\<close> is an extension that is not among the
  sources: \<open>rot angleDeg centre p\<close> stands for \<open>p.rotate(angleDeg, centre, false)\<close>.
\<close>

definition rotateLine ::
    "(real \<Rightarrow> Point \<Rightarrow> Point \<Rightarrow> Point) \<Rightarrow> real \<Rightarrow> Point \<Rightarrow> SelectionController \<Rightarrow> nat
      \<Rightarrow> SelectionController" where
  "rotateLine rot angleDeg overallCenter s line =
    (let center = pt (cx (bbox (heap s line))) (cy (bbox (heap s line)));
         s = call (Rotate angleDeg) line s;
         move = minusPoint (rot angleDeg overallCenter center) center
     in call (MoveRel move) line s)"

definition rotateComponent ::
    "(real \<Rightarrow> Point \<Rightarrow> Point \<Rightarrow> Point) \<Rightarrow> real \<Rightarrow> Point \<Rightarrow> SelectionController \<Rightarrow> nat
      \<Rightarrow> SelectionController" where
  "rotateComponent rot angleDeg overallCenter s component =
    (let center = anchorPoint (heap s component);
         s = call (Rotate angleDeg) component s;
         move = rot angleDeg overallCenter center;
         s = call (MoveTo move) component s
     in if isNodeInstance (heap s component) then call RecalculateSnappingPoints component s
        else s)"

definition rotateSelection ::
    "(real \<Rightarrow> Point \<Rightarrow> Point \<Rightarrow> Point) \<Rightarrow> real \<Rightarrow> SelectionController
      \<Rightarrow> error + SelectionController" where
  "rotateSelection rot angleDeg s =
    (if \<not> hasSelection s then Inr s
     else
       (case getOverallBoundingBox s of
          None \<Rightarrow> Inl TypeError
        | Some overallBBox \<Rightarrow>
            (let overallCenter = pt (cx overallBBox) (cy overallBBox);
                 s = foldl (rotateLine rot angleDeg overallCenter) s (currentlySelectedLines s)
             in Inr (foldl (rotateComponent rot angleDeg overallCenter) s
                       (currentlySelectedComponents s)))))"

definition flipLine ::
    "bool \<Rightarrow> Point \<Rightarrow> real \<Rightarrow> real \<Rightarrow> SelectionController \<Rightarrow> nat \<Rightarrow> SelectionController" where
  "flipLine horizontal overallCenter flipX flipY s line =
    (let center = pt (cx (bbox (heap s line))) (cy (bbox (heap s line)));
         diffToCenter = minusPoint center overallCenter;
         s = call (Flip horizontal) line s
     in call (MoveRel (pt (px diffToCenter * flipX) (py diffToCenter * flipY))) line s)"

definition flipComponent ::
    "bool \<Rightarrow> Point \<Rightarrow> real \<Rightarrow> real \<Rightarrow> SelectionController \<Rightarrow> nat \<Rightarrow> SelectionController" where
  "flipComponent horizontal overallCenter flipX flipY s component =
    (let center = anchorPoint (heap s component);
         diffToCenter = minusPoint center overallCenter;
         s = call (Flip horizontal) component s;
         s = call (MoveRel (pt (px diffToCenter * flipX) (py diffToCenter * flipY))) component s
     in if isNodeInstance (heap s component) then call RecalculateSnappingPoints component s
        else s)"

definition flipSelection :: "bool \<Rightarrow> SelectionController \<Rightarrow> error + SelectionController" where
  "flipSelection horizontal s =
    (if \<not> hasSelection s then Inr s
     else
       (case getOverallBoundingBox s of
          None \<Rightarrow> Inl TypeError
        | Some overallBBox \<Rightarrow>
            (let overallCenter = pt (cx overallBBox) (cy overallBBox);
                 flipX = (if horizontal then 0 else - 2);
                 flipY = (if horizontal then - 2 else 0);
                 s = foldl (flipLine horizontal overallCenter flipX flipY) s
                       (currentlySelectedLines s)
             in Inr (foldl (flipComponent horizontal overallCenter flipX flipY) s
                       (currentlySelectedComponents s)))))"

definition moveSelectionRel :: "Point \<Rightarrow> SelectionController \<Rightarrow> SelectionController" where
  "moveSelectionRel delta s =
    (let s = foldl (\<lambda>s element. call (MoveRel delta) element s) s (currentlySelectedComponents s)
     in foldl (\<lambda>s element. call (MoveRel delta) element s) s (currentlySelectedLines s))"

definition moveSelectionTo :: "Point \<Rightarrow> SelectionController \<Rightarrow> error + SelectionController" where
  "moveSelectionTo position s =
    (case getOverallBoundingBox s of
       None \<Rightarrow> Inl TypeError
     | Some overallBBox \<Rightarrow>
         (let overallCenter = pt (cx overallBBox) (cy overallBBox)
          in Inr (moveSelectionRel (minusPoint position overallCenter) s)))"

text \<open>
  A document with two wires, \<open>0\<close> and \<open>1\<close>, and a node component \<open>2\<close>; nothing is
  selected in \<open>emptySelection\<close>, the two wires are selected in \<open>twoLinesSelected\<close>, and
  all three objects in \<open>allSelected\<close>.
\<close>

definition exampleHeap :: "nat \<Rightarrow> Shape" where
  "exampleHeap =
    (\<lambda>a. \<lparr>bbox = \<lparr>box_x = 0, box_y = 0, box_width = 0, box_height = 0\<rparr>,
           anchorPoint = pt 0 0, isNodeInstance = False, calls = []\<rparr>)
    (0 := \<lparr>bbox = \<lparr>box_x = 0, box_y = 0, box_width = 2, box_height = 2\<rparr>,
           anchorPoint = pt 0 0, isNodeInstance = False, calls = []\<rparr>,
     1 := \<lparr>bbox = \<lparr>box_x = 10, box_y = 20, box_width = 2, box_height = 2\<rparr>,
           anchorPoint = pt 10 20, isNodeInstance = False, calls = []\<rparr>,
     2 := \<lparr>bbox = \<lparr>box_x = 4, box_y = 4, box_width = 4, box_height = 4\<rparr>,
           anchorPoint = pt 5 7, isNodeInstance = True, calls = []\<rparr>)"

definition emptySelection :: SelectionController where
  "emptySelection =
    \<lparr>selectionMode = RESET, instances = [2], lines = [0, 1],
     selectionStartPosition = pt 0 0,
     selectionRectangle = \<lparr>box_x = 0, box_y = 0, box_width = 0, box_height = 0\<rparr>,
     currentlyDragging = False, currentlySelectedComponents = [], currentlySelectedLines = [],
     selectionEnabled = True, heap = exampleHeap\<rparr>"

definition twoLinesSelected :: SelectionController where
  "twoLinesSelected = emptySelection\<lparr>currentlySelectedLines := [0, 1]\<rparr>"

definition allSelected :: SelectionController where
  "allSelected = emptySelection\<lparr>currentlySelectedLines := [0, 1], currentlySelectedComponents := [2]\<rparr>"

text \<open>
  What one pass of a loop body does to the object it visits: the body reads and writes
  the heap at that object only.
\<close>

definition updateShape :: "(Shape \<Rightarrow> Shape) \<Rightarrow> SelectionController \<Rightarrow> nat \<Rightarrow> SelectionController" where
  "updateShape g s obj = s\<lparr>heap := (heap s)(obj := g (heap s obj))\<rparr>"

definition flipLineShape :: "bool \<Rightarrow> Point \<Rightarrow> real \<Rightarrow> real \<Rightarrow> Shape \<Rightarrow> Shape" where
  "flipLineShape h oc fx fy sh =
    sh\<lparr>calls := calls sh @
      [Flip h, MoveRel (pt ((cx (bbox sh) - px oc) * fx) ((cy (bbox sh) - py oc) * fy))]\<rparr>"

definition flipComponentShape :: "bool \<Rightarrow> Point \<Rightarrow> real \<Rightarrow> real \<Rightarrow> Shape \<Rightarrow> Shape" where
  "flipComponentShape h oc fx fy sh =
    sh\<lparr>calls := calls sh @
      [Flip h, MoveRel (pt ((px (anchorPoint sh) - px oc) * fx) ((py (anchorPoint sh) - py oc) * fy))]
      @ (if isNodeInstance sh then [RecalculateSnappingPoints] else [])\<rparr>"

text \<open>
  An object differs from an earlier version of itself in its highlight only: the
  geometry is the same, and the calls made since are \<open>showBoundingBox\<close> and
  \<open>hideBoundingBox\<close>.
\<close>

definition isHighlightCall :: "Call \<Rightarrow> bool" where
  "isHighlightCall c = (c = ShowBoundingBox \<or> c = HideBoundingBox)"

definition highlightOnly :: "Shape \<Rightarrow> Shape \<Rightarrow> bool" where
  "highlightOnly a b =
    (bbox b = bbox a \<and> anchorPoint b = anchorPoint a \<and> isNodeInstance b = isNodeInstance a \<and>
     take (length (calls a)) (calls b) = calls a \<and>
     list_all isHighlightCall (drop (length (calls a)) (calls b)))"

section \<open>ComponentSymbol (componentSymbol.js)\<close>

text \<open>
  An element's attributes: \<open>getAttribute\<close> gives a string, or \<open>null\<close> for a missing
  attribute. A value that is a string or a number (\<open>SVGLength\<close> in the type comments).
\<close>

type_synonym Attributes = "string \<Rightarrow> string option"

datatype SVGLength = Num real | Str string

text \<open>JavaScript truthiness of a string that may be \<open>null\<close>, and \<open>a || b\<close> on two of them.\<close>

fun truthy :: "string option \<Rightarrow> bool" where
  "truthy None = False"
| "truthy (Some s) = (s \<noteq> [])"

definition orElse :: "string option \<Rightarrow> string option \<Rightarrow> string option" where
  "orElse a b = (if truthy a then a else b)"

text \<open>
  The regular expression \<open>/^(\d*\.)?\d+$/\<close>, and \<open>Number.parseFloat\<close> on the strings it
  accepts (the exact decimal value).
\<close>

definition isDigit :: "char \<Rightarrow> bool" where
  "isDigit c = (c \<in> set ''0123456789'')"

definition numberRegEx :: "string \<Rightarrow> bool" where
  "numberRegEx s =
    (case dropWhile isDigit s of
       [] \<Rightarrow> takeWhile isDigit s \<noteq> []
     | c # r \<Rightarrow> c = CHR ''.'' \<and> r \<noteq> [] \<and> list_all isDigit r)"

definition digitValue :: "char \<Rightarrow> nat" where
  "digitValue c = of_char c - 48"

definition parseDigits :: "string \<Rightarrow> nat" where
  "parseDigits s = foldl (\<lambda>n c. 10 * n + digitValue c) 0 s"

definition parseFloat :: "string \<Rightarrow> real" where
  "parseFloat s =
    (case dropWhile isDigit s of
       [] \<Rightarrow> real (parseDigits s)
     | c # r \<Rightarrow> real (parseDigits (takeWhile isDigit s)) + real (parseDigits r) / 10 ^ length r)"

text \<open>
  Modelled from the spec: \<open>SVG.Number.ensureInPx\<close> is an extension that is not among the
  sources. Following "each anchor's point computed as \<open>(mid.x + x, mid.y - y)\<close>" and
  "numeric anchor coordinates accept either literal numbers or unit-suffixed lengths", a
  number is a length in px already, and the conversion of a string is the parameter
  \<open>toPx\<close>.
\<close>

definition ensureInPx :: "(string \<Rightarrow> real) \<Rightarrow> SVGLength \<Rightarrow> real" where
  "ensureInPx toPx v = (case v of Num n \<Rightarrow> n | Str s \<Rightarrow> toPx s)"

record TikZAnchor =
  aName :: "string option"
  aX :: SVGLength
  aY :: SVGLength
  aPoint :: Point
  aIsDefault :: bool

text \<open>
  The metadata of a symbol, as \<open>getNamedTag\<close> and \<open>getNamedTags\<close> (not among the
  sources) find it: the \<open>componentinformation\<close> element with its attributes, its
  \<open>pins\<close> and \<open>additionalAnchors\<close> elements with their \<open>pin\<close> and \<open>anchor\<close> children,
  and its \<open>textPosition\<close> element; each may be missing.
\<close>

record ComponentInformation =
  attributes :: Attributes
  pinsTag :: "Attributes list option"
  additionalAnchorsTag :: "Attributes list option"
  textPositionTag :: "Attributes option"

record SVGMetadataElement =
  componentinformationTag :: "ComponentInformation option"

text \<open>
  The symbol element: its first child that is a metadata element, if any, and its
  \<open>viewBox\<close> attribute.
\<close>

record SymbolElement =
  metadataChild :: "SVGMetadataElement option"
  viewBoxAttribute :: "string option"

text \<open>\<open>SymbolBaseInformation\<close>; \<open>viewBox\<close> holds the string given to \<open>new SVG.Box\<close>.\<close>

record SymbolBaseInformation =
  svgMetadataElement :: "SVGMetadataElement option"
  componentInformation :: "ComponentInformation option"
  isNode :: bool
  isPath :: bool
  displayName :: "string option"
  tikzName :: "string option"
  shapeName :: "string option"
  groupName :: "string option"
  mid :: Point
  viewBox :: "string option"

text \<open>
  Lines 109 to 114: the metadata element and the component information in it.
  \<open>optAttribute ci k\<close> is \<open>componentInformation?.getAttribute(k) ?? null\<close>.
\<close>

definition findComponentInformation :: "SymbolElement \<Rightarrow> ComponentInformation option" where
  "findComponentInformation symbolElement =
    (case metadataChild symbolElement of None \<Rightarrow> None | Some m \<Rightarrow> componentinformationTag m)"

definition optAttribute :: "ComponentInformation option \<Rightarrow> string \<Rightarrow> string option" where
  "optAttribute ci k = (case ci of None \<Rightarrow> None | Some c \<Rightarrow> attributes c k)"

definition getBaseInformation :: "(string \<Rightarrow> real) \<Rightarrow> SymbolElement \<Rightarrow> SymbolBaseInformation" where
  "getBaseInformation toPx symbolElement =
    (let svgMetadataElement = metadataChild symbolElement;
         componentInformation = findComponentInformation symbolElement;
         isNode = (optAttribute componentInformation ''type'' = Some ''node'');
         isPath = (optAttribute componentInformation ''type'' = Some ''path'');
         tikzName = optAttribute componentInformation ''tikzName'';
         displayName =
           (case optAttribute componentInformation ''displayName'' of
              None \<Rightarrow> tikzName
            | Some d \<Rightarrow> Some d);
         shapeName = optAttribute componentInformation ''shapeName'';
         groupName = optAttribute componentInformation ''groupName'';
         refX = (case optAttribute componentInformation ''refX'' of
                   None \<Rightarrow> Num 0
                 | Some r \<Rightarrow> if r \<noteq> [] then Str r else Num 0);
         refY = (case optAttribute componentInformation ''refY'' of
                   None \<Rightarrow> Num 0
                 | Some r \<Rightarrow> if r \<noteq> [] then Str r else Num 0);
         mid = \<lparr>px = ensureInPx toPx refX, py = ensureInPx toPx refY\<rparr>;
         viewBox =
           (if optAttribute componentInformation ''viewBox'' \<noteq> None
              then optAttribute componentInformation ''viewBox''
            else if viewBoxAttribute symbolElement \<noteq> None then viewBoxAttribute symbolElement
            else None)
     in \<lparr>svgMetadataElement = svgMetadataElement, componentInformation = componentInformation,
         isNode = isNode, isPath = isPath, displayName = displayName, tikzName = tikzName,
         shapeName = shapeName, groupName = groupName, mid = mid, viewBox = viewBox\<rparr>)"

text \<open>The fields of the symbol; those that the base information has too are prefixed.\<close>

record ComponentSymbol =
  symbolMetadataElement :: "SVGMetadataElement option"
  symbolDisplayName :: string
  symbolTikzName :: string
  symbolGroupName :: "string option"
  symbolMid :: Point
  symbolViewBox :: "string option"
  pins :: "TikZAnchor list"
  additionalAnchors :: "TikZAnchor list"
  textAnchor :: "TikZAnchor option"
  defaultAnchor :: "TikZAnchor option"

text \<open>
  \<open>#parseAnchor\<close> returns the anchor and, when the anchor is the default one, stores it
  in the symbol.
\<close>

definition parseAnchor ::
    "(string \<Rightarrow> real) \<Rightarrow> Attributes \<Rightarrow> ComponentSymbol \<Rightarrow> TikZAnchor \<times> ComponentSymbol" where
  "parseAnchor toPx anchorElement this =
    (let name = orElse (anchorElement ''anchorName'') (anchorElement ''anchorname'');
         name = (if truthy name then name else None);
         x = (case anchorElement ''x'' of None \<Rightarrow> Num 0 | Some s \<Rightarrow> Str s);
         y = (case anchorElement ''y'' of None \<Rightarrow> Num 0 | Some s \<Rightarrow> Str s);
         isDefault = orElse (anchorElement ''isDefault'') (anchorElement ''isdefault'');
         x = (case x of Str s \<Rightarrow> if numberRegEx s then Num (parseFloat s) else Str s | Num n \<Rightarrow> Num n);
         y = (case y of Str s \<Rightarrow> if numberRegEx s then Num (parseFloat s) else Str s | Num n \<Rightarrow> Num n);
         isDefault = (if truthy isDefault then isDefault = Some ''true'' else False);
         point = \<lparr>px = px (symbolMid this) + ensureInPx toPx x,
                  py = py (symbolMid this) - ensureInPx toPx y\<rparr>;
         anchor = \<lparr>aName = name, aX = x, aY = y, aPoint = point, aIsDefault = isDefault\<rparr>
     in (anchor, if isDefault then this\<lparr>defaultAnchor := Some anchor\<rparr> else this))"

text \<open>\<open>array.map(this.#parseAnchor, this)\<close>: the elements are parsed in order.\<close>

fun parseAnchors ::
    "(string \<Rightarrow> real) \<Rightarrow> Attributes list \<Rightarrow> ComponentSymbol \<Rightarrow> TikZAnchor list \<times> ComponentSymbol" where
  "parseAnchors toPx [] this = ([], this)"
| "parseAnchors toPx (e # es) this =
    (let (a, this) = parseAnchor toPx e this;
         (as, this) = parseAnchors toPx es this
     in (a # as, this))"

text \<open>
  The constructor; \<open>baseInformation\<close> is optional. Lines 74 to 99, which run once the
  metadata check has passed, are \<open>initSymbol\<close>.
\<close>

definition initSymbol :: "(string \<Rightarrow> real) \<Rightarrow> SymbolBaseInformation \<Rightarrow> ComponentSymbol" where
  "initSymbol toPx baseInformation =
    (let this =
           \<lparr>symbolMetadataElement = svgMetadataElement baseInformation,
            symbolDisplayName = (case displayName baseInformation of Some d \<Rightarrow> d | None \<Rightarrow> []),
            symbolTikzName = (case tikzName baseInformation of Some t \<Rightarrow> t | None \<Rightarrow> []),
            symbolGroupName = groupName baseInformation,
            symbolMid = mid baseInformation,
            symbolViewBox = viewBox baseInformation,
            pins = [], additionalAnchors = [], textAnchor = None, defaultAnchor = None\<rparr>;
         pinArray =
           (case componentInformation baseInformation of
              None \<Rightarrow> []
            | Some ci \<Rightarrow> (case pinsTag ci of None \<Rightarrow> [] | Some ps \<Rightarrow> ps));
         (parsedPins, this) = parseAnchors toPx pinArray this;
         this = this\<lparr>pins := parsedPins\<rparr>;
         additionalAnchorArray =
           (case componentInformation baseInformation of
              None \<Rightarrow> []
            | Some ci \<Rightarrow> (case additionalAnchorsTag ci of None \<Rightarrow> [] | Some ps \<Rightarrow> ps));
         (parsedAnchors, this) = parseAnchors toPx additionalAnchorArray this;
         this = this\<lparr>additionalAnchors := parsedAnchors\<rparr>;
         textPosition =
           (case componentInformation baseInformation of
              None \<Rightarrow> None
            | Some ci \<Rightarrow> textPositionTag ci)
     in (case textPosition of
           None \<Rightarrow> this\<lparr>textAnchor := None\<rparr>
         | Some t \<Rightarrow>
             (let (a, this) = parseAnchor toPx t this
              in this\<lparr>textAnchor := Some a\<rparr>)))"

definition newComponentSymbol ::
    "(string \<Rightarrow> real) \<Rightarrow> SymbolElement \<Rightarrow> SymbolBaseInformation option \<Rightarrow> error + ComponentSymbol" where
  "newComponentSymbol toPx symbolElement baseInformation =
    (let baseInformation =
           (case baseInformation of None \<Rightarrow> getBaseInformation toPx symbolElement | Some b \<Rightarrow> b)
     in if svgMetadataElement baseInformation = None \<or> \<not> truthy (displayName baseInformation)
            \<or> \<not> truthy (tikzName baseInformation)
        then Inl MissingMetadata
        else Inr (initSymbol toPx baseInformation))"

text \<open>
  Examples. Their lengths carry no unit, and \<open>plainPx\<close> reads such a string as a number
  of px. A transistor symbol with the pin \<open>G\<close> at \<open>x = 2\<close>, \<open>y = 3\<close> and its reference
  point at \<open>(10, 10)\<close>; its metadata has a \<open>tikzName\<close> and no \<open>displayName\<close>. A symbol
  whose metadata has a \<open>displayName\<close> and no \<open>tikzName\<close>.
\<close>

definition plainPx :: "string \<Rightarrow> real" where
  "plainPx s = (if numberRegEx s then parseFloat s else 0)"

definition gatePin :: Attributes where
  "gatePin = [''anchorName'' \<mapsto> ''G'', ''x'' \<mapsto> ''2'', ''y'' \<mapsto> ''3'']"

definition transistorElement :: SymbolElement where
  "transistorElement =
    \<lparr>metadataChild = Some \<lparr>componentinformationTag = Some
       \<lparr>attributes = [''type'' \<mapsto> ''node'', ''tikzName'' \<mapsto> ''nmos'', ''refX'' \<mapsto> ''10'',
                      ''refY'' \<mapsto> ''10''],
        pinsTag = Some [gatePin], additionalAnchorsTag = None, textPositionTag = None\<rparr>\<rparr>,
     viewBoxAttribute = None\<rparr>"

definition unnamedElement :: SymbolElement where
  "unnamedElement =
    \<lparr>metadataChild = Some \<lparr>componentinformationTag = Some
       \<lparr>attributes = [''type'' \<mapsto> ''node'', ''displayName'' \<mapsto> ''Transistor''],
        pinsTag = None, additionalAnchorsTag = None, textPositionTag = None\<rparr>\<rparr>,
     viewBoxAttribute = None\<rparr>"


section \<open>SnapPoint: the quadrant path\<close>

lemma js_rem_4: "(if js_rem k 4 < 0 then js_rem k 4 + 4 else js_rem k 4) = k mod 4"
  unfolding js_rem_def by (cases "k \<ge> 0") (auto simp: sgn_if zmod_zminus1_eq_if)

lemma isInteger_of_int: "isInteger (of_int k)"
  by (simp add: isInteger_def)

lemma sinCos_degree_quarter:
  "sinCos True (90 * of_int k) = ([0, 1, 0, - 1] ! nat (k mod 4), [1, 0, - 1, 0] ! nat (k mod 4))"
  by (simp add: sinCos_def isInteger_of_int Let_def js_rem_4 del: nth_Cons_numeral)

lemma sin_quarter: "sin (of_int k * pi / 2) = [0, 1, 0, - 1] ! nat (k mod 4)"
proof -
  define m r where "m = k div 4" and "r = k mod 4"
  have k: "k = 4 * m + r" by (simp add: m_def r_def)
  have r: "r = 0 \<or> r = 1 \<or> r = 2 \<or> r = 3" unfolding r_def by presburger
  have "of_int k * pi / 2 = 2 * pi * of_int m + of_int r * pi / 2"
    by (simp add: k algebra_simps)
  then have "sin (of_int k * pi / 2) = sin (2 * pi * of_int m + of_int r * pi / 2)"
    by (rule arg_cong)
  also have "\<dots> = sin (of_int r * pi / 2)"
    unfolding sin_add by simp
  also have "\<dots> = [0, 1, 0, - 1] ! nat r"
    using r sin_3over2_pi by (auto simp: numeral_3_eq_3 numeral_2_eq_2)
  finally show ?thesis by (simp add: r_def)
qed

lemma cos_quarter: "cos (of_int k * pi / 2) = [1, 0, - 1, 0] ! nat (k mod 4)"
proof -
  define m r where "m = k div 4" and "r = k mod 4"
  have k: "k = 4 * m + r" by (simp add: m_def r_def)
  have r: "r = 0 \<or> r = 1 \<or> r = 2 \<or> r = 3" unfolding r_def by presburger
  have "of_int k * pi / 2 = 2 * pi * of_int m + of_int r * pi / 2"
    by (simp add: k algebra_simps)
  then have "cos (of_int k * pi / 2) = cos (2 * pi * of_int m + of_int r * pi / 2)"
    by (rule arg_cong)
  also have "\<dots> = cos (of_int r * pi / 2)"
    unfolding cos_add by simp
  also have "\<dots> = [1, 0, - 1, 0] ! nat r"
    using r cos_3over2_pi by (auto simp: numeral_3_eq_3 numeral_2_eq_2)
  finally show ?thesis by (simp add: r_def)
qed

text \<open>
  The position that \<open>recalculate\<close> stores, in terms of \<open>sinCos\<close>; the stored mid and angle.
\<close>

lemma recalculate_position:
  "px (recalculate (Some m) (Some a) sp) =
     snd (sinCos (inDegree sp) a) * elem0 (relPosition sp)
       + fst (sinCos (inDegree sp) a) * elem1 (relPosition sp) + elem0 m"
  "py (recalculate (Some m) (Some a) sp) =
     - fst (sinCos (inDegree sp) a) * elem0 (relPosition sp)
       + snd (sinCos (inDegree sp) a) * elem1 (relPosition sp) + elem1 m"
  by (simp_all add: recalculate_def notifyAll_def Let_def split: prod.splits)

lemma recalculate_stored:
  "midPoint (recalculate (Some m) (Some a) sp) = m"
  "angle (recalculate (Some m) (Some a) sp) = a"
  "changeListeners (recalculate nm na sp) = changeListeners sp"
  "relPosition (recalculate nm na sp) = relPosition sp"
  "inDegree (recalculate nm na sp) = inDegree sp"
  by (simp_all add: recalculate_def notifyAll_def Let_def split: prod.splits option.splits)

text \<open>
  In degree mode the quadrant path is right: at \<open>90 * k\<close> degrees the sine and
  the cosine come from the two tables, they are those of \<open>k * pi / 2\<close>, and the position is
  the rotated offset plus the mid.
\<close>

lemma recalculate_degree_quarter:
  assumes "inDegree sp"
  shows "(px (recalculate (Some m) (Some (90 * of_int k)) sp),
          py (recalculate (Some m) (Some (90 * of_int k)) sp))
           = position_spec (relPosition sp) (of_int k * pi / 2) m"
    and "fst (sinCos (inDegree sp) (90 * of_int k)) \<in> {- 1, 0, 1}"
    and "snd (sinCos (inDegree sp) (90 * of_int k)) \<in> {- 1, 0, 1}"
proof -
  have r: "k mod 4 = 0 \<or> k mod 4 = 1 \<or> k mod 4 = 2 \<or> k mod 4 = 3" by presburger
  show "(px (recalculate (Some m) (Some (90 * of_int k)) sp),
          py (recalculate (Some m) (Some (90 * of_int k)) sp))
           = position_spec (relPosition sp) (of_int k * pi / 2) m"
    using assms
    by (simp add: recalculate_position sinCos_degree_quarter position_spec_def rotate_spec_def
        sin_quarter cos_quarter del: nth_Cons_numeral)
  show "fst (sinCos (inDegree sp) (90 * of_int k)) \<in> {- 1, 0, 1}"
    using assms r by (auto simp: sinCos_degree_quarter numeral_3_eq_3 numeral_2_eq_2)
  show "snd (sinCos (inDegree sp) (90 * of_int k)) \<in> {- 1, 0, 1}"
    using assms r by (auto simp: sinCos_degree_quarter numeral_3_eq_3 numeral_2_eq_2)
qed

text \<open>
  In radian mode the quadrant number of \<open>k * pi / 2\<close> is \<open>90 * k\<close>, so the tables are
  read at \<open>(90 * k) mod 4\<close>, which is 0 or 2: every quarter turn becomes no turn or a half
  turn.
\<close>

lemma sinCos_radian_quarter:
  "sinCos False (of_int k * pi / 2)
     = ([0, 1, 0, - 1] ! nat ((90 * k) mod 4), [1, 0, - 1, 0] ! nat ((90 * k) mod 4))"
proof -
  have q: "(of_int k * pi / 2 * 180) / pi = of_int (90 * k)"
    by simp
  show ?thesis
    unfolding sinCos_def q
    by (simp add: isInteger_of_int Let_def js_rem_4 del: nth_Cons_numeral of_int_mult)
qed

text \<open>
  Claim C1. For an angle that is an exact multiple of a quarter turn, \<open>recalculate\<close> is
  to set the position to the rotated offset plus the mid, in degree mode and in radian
  mode. Degree mode does (\<open>recalculate_degree_quarter\<close>). In radian mode the code takes
  \<open>angle * 180 / pi\<close>, the angle in degrees, for the quadrant number: at \<open>pi / 2\<close> this is
  90, an integer, and \<open>90 % 4 = 2\<close> selects the sine 0 and the cosine \<open>- 1\<close>. The offset
  \<open>(1, 0)\<close> at the mid \<open>(0, 0)\<close> lands on \<open>(- 1, 0)\<close>, a half turn, where the rotation by
  \<open>pi / 2\<close> gives \<open>(0, - 1)\<close>.
\<close>

theorem recalculate_radian_quarter_is_half_turn:
  "sinCos False (pi / 2) = (0, - 1) \<and>
   px (recalculate (Some (PointObj 0 0)) (Some (pi / 2)) radianPoint) = - 1 \<and>
   py (recalculate (Some (PointObj 0 0)) (Some (pi / 2)) radianPoint) = 0 \<and>
   position_spec (relPosition radianPoint) (pi / 2) (PointObj 0 0) = (0, - 1)"
proof -
  have sc: "sinCos False (pi / 2) = (0, - 1)"
    by (simp add: sinCos_def isInteger_def js_rem_def Let_def)
  have "inDegree radianPoint = False" "relPosition radianPoint = PointObj 1 0"
    by (simp_all add: radianPoint_def)
  then show ?thesis
    by (simp add: sc recalculate_position position_spec_def rotate_spec_def)
qed

section \<open>SnapPoint: no hidden state, and liveness after removal\<close>

text \<open>
  Claim C8. For all mid points \<open>m1\<close> and \<open>m2\<close> (different or not) and every angle \<open>a\<close>,
  after \<open>recalculate(m2, a)\<close> followed by \<open>recalculate(m1, a)\<close> the position is the
  offset, rotated by the sine and cosine of \<open>a\<close>, plus \<open>m1\<close>. It is the position of a
  single \<open>recalculate(m1, a)\<close>, and it is the same whatever the position, the mid and the
  angle of the point were before: it depends on the last mid and angle only. The stored
  mid and angle are \<open>m1\<close> and \<open>a\<close>.
\<close>

theorem recalculate_recompute_law:
  "px (recalculate (Some m1) (Some a) (recalculate (Some m2) (Some a) sp))
     = snd (sinCos (inDegree sp) a) * elem0 (relPosition sp)
         + fst (sinCos (inDegree sp) a) * elem1 (relPosition sp) + elem0 m1 \<and>
   py (recalculate (Some m1) (Some a) (recalculate (Some m2) (Some a) sp))
     = - fst (sinCos (inDegree sp) a) * elem0 (relPosition sp)
         + snd (sinCos (inDegree sp) a) * elem1 (relPosition sp) + elem1 m1 \<and>
   px (recalculate (Some m1) (Some a) (recalculate (Some m2) (Some a) sp))
     = px (recalculate (Some m1) (Some a) sp) \<and>
   py (recalculate (Some m1) (Some a) (recalculate (Some m2) (Some a) sp))
     = py (recalculate (Some m1) (Some a) sp) \<and>
   px (recalculate (Some m1) (Some a) (recalculate (Some m2) (Some a) sp))
     = px (recalculate (Some m1) (Some a)
             (sp\<lparr>px := x0, py := y0, midPoint := m0, angle := a0\<rparr>)) \<and>
   py (recalculate (Some m1) (Some a) (recalculate (Some m2) (Some a) sp))
     = py (recalculate (Some m1) (Some a)
             (sp\<lparr>px := x0, py := y0, midPoint := m0, angle := a0\<rparr>)) \<and>
   midPoint (recalculate (Some m1) (Some a) (recalculate (Some m2) (Some a) sp)) = m1 \<and>
   angle (recalculate (Some m1) (Some a) (recalculate (Some m2) (Some a) sp)) = a"
  by (simp add: recalculate_position recalculate_stored)

lemma removeInstance_fields:
  "px (removeInstance sp) = px sp"
  "py (removeInstance sp) = py sp"
  "relPosition (removeInstance sp) = relPosition sp"
  "inDegree (removeInstance sp) = inDegree sp"
  "changeListeners (removeInstance sp) = changeListeners sp"
  "instanceRef (removeInstance sp) = None"
  "anchorName (removeInstance sp) = None"
  by (simp_all add: removeInstance_def notifyAll_def Let_def)

lemma removeInstance_notified:
  "notified (removeInstance sp) = notified sp @
     map (\<lambda>l. \<lparr>listener = l, atX = px sp, atY = py sp, oldX = px sp, oldY = py sp,
                isDeleted = True\<rparr>) (changeListeners sp)"
  by (simp add: removeInstance_def notifyAll_def Let_def)

lemma recalculate_notified:
  "notified (recalculate nm na sp) = notified sp @
     map (\<lambda>l. \<lparr>listener = l, atX = px (recalculate nm na sp), atY = py (recalculate nm na sp),
                oldX = px sp, oldY = py sp, isDeleted = False\<rparr>) (changeListeners sp)"
  by (simp add: recalculate_def notifyAll_def Let_def split: prod.splits option.splits)

text \<open>
  Claim C10. After \<open>removeInstance()\<close> a call \<open>recalculate(newMid, angle)\<close> is live: it
  stores the mid and the angle, moves the point to the offset, rotated by the sine and
  cosine of the new angle, plus the new mid, which is the position the same call gives on
  the point that was never removed, and it calls every registered listener, in order,
  with the point at its new position, the old coordinates and \<open>isDeleted = false\<close>; the
  listeners are still those registered before the removal.
\<close>

theorem recalculate_after_removeInstance:
  "midPoint (recalculate (Some m) (Some a) (removeInstance sp)) = m \<and>
   angle (recalculate (Some m) (Some a) (removeInstance sp)) = a \<and>
   px (recalculate (Some m) (Some a) (removeInstance sp))
     = snd (sinCos (inDegree sp) a) * elem0 (relPosition sp)
         + fst (sinCos (inDegree sp) a) * elem1 (relPosition sp) + elem0 m \<and>
   py (recalculate (Some m) (Some a) (removeInstance sp))
     = - fst (sinCos (inDegree sp) a) * elem0 (relPosition sp)
         + snd (sinCos (inDegree sp) a) * elem1 (relPosition sp) + elem1 m \<and>
   px (recalculate (Some m) (Some a) (removeInstance sp)) = px (recalculate (Some m) (Some a) sp) \<and>
   py (recalculate (Some m) (Some a) (removeInstance sp)) = py (recalculate (Some m) (Some a) sp) \<and>
   changeListeners (recalculate (Some m) (Some a) (removeInstance sp)) = changeListeners sp \<and>
   notified (recalculate (Some m) (Some a) (removeInstance sp)) =
     notified (removeInstance sp) @
     map (\<lambda>l. \<lparr>listener = l,
                atX = snd (sinCos (inDegree sp) a) * elem0 (relPosition sp)
                        + fst (sinCos (inDegree sp) a) * elem1 (relPosition sp) + elem0 m,
                atY = - fst (sinCos (inDegree sp) a) * elem0 (relPosition sp)
                        + snd (sinCos (inDegree sp) a) * elem1 (relPosition sp) + elem1 m,
                oldX = px sp, oldY = py sp, isDeleted = False\<rparr>) (changeListeners sp)"
  by (simp add: recalculate_position recalculate_stored recalculate_notified removeInstance_fields)

section \<open>LineDrawer: the direction heuristic\<close>

lemma startedAtOrigin_fields:
  "newLine startedAtOrigin = Some (newLineAt (pt 0 0))"
  "lastPoint startedAtOrigin = Some (pt 0 0)"
  "holdDirectionSet startedAtOrigin = False"
  "lastLineDirection startedAtOrigin = noDirection"
  by (simp_all add: startedAtOrigin_def activate_def initialDrawer_def resetVars_def
      clickListener_def noDirection_def)

lemma afterSegmentRight_fields:
  "newLine afterSegmentRight =
     Some \<lparr>startPoint = pt 0 0, pushedPoints = [(True, pt 5 0)], mousePoint = Some (True, pt 5 0)\<rparr>"
  "lastPoint afterSegmentRight = Some (pt 5 0)"
  "holdDirectionSet afterSegmentRight = True"
  "horizontalFirst afterSegmentRight = True"
  "wasAboveXAxis afterSegmentRight = Some False"
  "wasRightOfYAxis afterSegmentRight = Some True"
  "lastLineDirection afterSegmentRight = \<lparr>up = False, right = True, down = False, left = False\<rparr>"
  by (simp_all add: afterSegmentRight_def activate_def initialDrawer_def resetVars_def
      clickListener_def moveListener_def noDirection_def newLineAt_def pushPoint_def
      updateMousePoint_def pt_def Let_def)

lemma afterSegmentDown_fields:
  "newLine afterSegmentDown =
     Some \<lparr>startPoint = pt 0 0, pushedPoints = [(False, pt 0 5)], mousePoint = Some (False, pt 0 5)\<rparr>"
  "lastPoint afterSegmentDown = Some (pt 0 5)"
  "holdDirectionSet afterSegmentDown = True"
  "horizontalFirst afterSegmentDown = False"
  "wasAboveXAxis afterSegmentDown = Some False"
  "wasRightOfYAxis afterSegmentDown = Some False"
  "lastLineDirection afterSegmentDown = \<lparr>up = False, right = False, down = True, left = False\<rparr>"
  by (simp_all add: afterSegmentDown_def activate_def initialDrawer_def resetVars_def
      clickListener_def moveListener_def noDirection_def newLineAt_def pushPoint_def
      updateMousePoint_def pt_def Let_def)

text \<open>
  What the first move after the start point computes: a comparison of the signed deltas.
\<close>

lemma first_move_compares_deltas:
  assumes "newLine s = Some l"
    and "lastPoint s = Some lp"
    and "\<not> holdDirectionSet s"
    and "lastLineDirection s = noDirection"
  shows "\<not> isl (moveListener q s)"
    and "horizontalFirst (projr (moveListener q s)) = (px q - px lp > py q - py lp)"
    and "holdDirectionSet (projr (moveListener q s))"
  using assms by (simp_all add: moveListener_def Let_def noDirection_def)

text \<open>
  Where neither delta is negative, this is the comparison of the absolute deltas, and
  the specification's example holds: start \<open>(0, 0)\<close>, first move to \<open>(5, 1)\<close>,
  horizontal-first.
\<close>

lemma first_move_down_right:
  assumes "newLine s = Some l"
    and "lastPoint s = Some lp"
    and "\<not> holdDirectionSet s"
    and "lastLineDirection s = noDirection"
    and "px q \<ge> px lp"
    and "py q \<ge> py lp"
  shows "horizontalFirst (projr (moveListener q s)) = (\<bar>px q - px lp\<bar> > \<bar>py q - py lp\<bar>)"
  using assms by (simp add: first_move_compares_deltas [OF assms(1-4)])

lemma first_move_example:
  "horizontalFirst (projr (moveListener (pt 5 1) startedAtOrigin))"
  by (simp add: first_move_compares_deltas [OF startedAtOrigin_fields(1,2)]
      startedAtOrigin_fields pt_def)

text \<open>
  Claim C2. On the first pointer move after the start point is fixed, the router is to
  choose horizontal-first exactly when the absolute horizontal delta exceeds the absolute
  vertical delta. With a negative delta the code does not: the deltas are compared with
  their signs. From the start \<open>(0, 0)\<close>, a first move to \<open>(- 5, 1)\<close>, where the
  horizontal delta is the larger one, gives vertical-first, and so does a move to
  \<open>(- 5, - 1)\<close>; a move to \<open>(- 1, - 5)\<close>, where the vertical delta is the larger one, gives
  horizontal-first.
\<close>

theorem first_move_negative_delta:
  "\<not> isl (moveListener (pt (- 5) 1) startedAtOrigin) \<and>
   horizontalFirst (projr (moveListener (pt (- 5) 1) startedAtOrigin)) = False \<and>
   \<bar>px (pt (- 5) 1) - px (pt 0 0)\<bar> > \<bar>py (pt (- 5) 1) - py (pt 0 0)\<bar> \<and>
   \<not> isl (moveListener (pt (- 5) (- 1)) startedAtOrigin) \<and>
   horizontalFirst (projr (moveListener (pt (- 5) (- 1)) startedAtOrigin)) = False \<and>
   \<bar>px (pt (- 5) (- 1)) - px (pt 0 0)\<bar> > \<bar>py (pt (- 5) (- 1)) - py (pt 0 0)\<bar> \<and>
   \<not> isl (moveListener (pt (- 1) (- 5)) startedAtOrigin) \<and>
   horizontalFirst (projr (moveListener (pt (- 1) (- 5)) startedAtOrigin)) = True \<and>
   \<bar>px (pt (- 1) (- 5)) - px (pt 0 0)\<bar> < \<bar>py (pt (- 1) (- 5)) - py (pt 0 0)\<bar>"
  by (simp add: moveListener_def startedAtOrigin_fields Let_def pt_def noDirection_def)

text \<open>
  Claim C3 as stated fails. After a first segment from \<open>(0, 0)\<close> to \<open>(5, 0)\<close> the recorded
  direction is right. A move on to \<open>(10, 3)\<close> stays right of the last point, nothing is
  forced, and the provisional segment is routed horizontal-first: it runs on to the
  right, parallel to the segment before it.
\<close>

theorem parallel_segment_counterexample:
  "right (lastLineDirection afterSegmentRight) \<and>
   \<not> isl (moveListener (pt 10 3) afterSegmentRight) \<and>
   horizontalFirst (projr (moveListener (pt 10 3) afterSegmentRight)) \<and>
   mousePoint (the (newLine (projr (moveListener (pt 10 3) afterSegmentRight))))
     = Some (True, pt 10 3)"
  by (simp add: moveListener_def afterSegmentRight_fields Let_def pt_def updateMousePoint_def)

text \<open>
  The events of a drawing session keep the recorded direction at one direction at most.
\<close>

lemma lineStep_atMostOneDirection:
  assumes "atMostOneDirection (lastLineDirection s)"
    and "lineStep e s = Inr s'"
  shows "atMostOneDirection (lastLineDirection s')"
proof (cases e)
  case (Click p)
  with assms show ?thesis
    by (auto simp: clickListener_def atMostOneDirection_def Let_def
        split: option.splits if_splits)
next
  case (Move p)
  with assms show ?thesis
    by (auto simp: moveListener_def Let_def updateMousePoint_def
        split: option.splits if_splits)
next
  case Done
  with assms show ?thesis
    by (auto simp: lineEnd_def resetVars_def atMostOneDirection_def split: option.splits)
next
  case Cancel
  with assms show ?thesis
    by (auto simp: onCancel_def resetVars_def atMostOneDirection_def)
qed

lemma lineRun_atMostOneDirection:
  "atMostOneDirection (lastLineDirection s) \<Longrightarrow> lineRun es s = Inr s'
     \<Longrightarrow> atMostOneDirection (lastLineDirection s')"
proof (induction es arbitrary: s)
  case Nil
  then show ?case by simp
next
  case (Cons e es)
  then show ?case
    by (auto split: sum.splits dest: lineStep_atMostOneDirection)
qed

text \<open>
  Claim C3, amended. For every pointer move while a line is in progress, the direction of
  the new provisional segment is decided as follows. If the recorded direction of the
  preceding segment is left and the cursor is right of the last fixed point, or it is
  right and the cursor is not right of that point, the segment is routed vertical-first.
  Otherwise, if it is down and the cursor is above the last fixed point, or it is up and
  the cursor is not above it, the segment is routed horizontal-first. In every other case
  nothing is forced: the direction is the one the lock gives, so that the new segment may
  run on parallel to the preceding one, in its direction. The recorded direction itself
  is left as it is. As a consequence, whenever the cursor is off the axis of the
  preceding segment, the provisional path does not leave the last fixed point back over
  the preceding segment.
\<close>

theorem move_forces_turn_behind_only:
  assumes "newLine s = Some l"
    and "lastPoint s = Some lp"
  shows "\<not> isl (moveListener q s) \<and>
         lastLineDirection (projr (moveListener q s)) = lastLineDirection s \<and>
         horizontalFirst (projr (moveListener q s)) =
           (if (left (lastLineDirection s) \<and> px q > px lp)
                 \<or> (right (lastLineDirection s) \<and> \<not> px q > px lp) then False
            else if (down (lastLineDirection s) \<and> py q < py lp)
                 \<or> (up (lastLineDirection s) \<and> \<not> py q < py lp) then True
            else lockedDirection q lp s) \<and>
         mousePoint (the (newLine (projr (moveListener q s))))
           = Some (horizontalFirst (projr (moveListener q s)), q) \<and>
         (atMostOneDirection (lastLineDirection s) \<and> offAxis (lastLineDirection s) lp q
          \<longrightarrow> \<not> doublesBack (lastLineDirection s)
                  (firstLeg (horizontalFirst (projr (moveListener q s))) lp q))"
proof -
  have r: "\<not> isl (moveListener q s)"
    "lastLineDirection (projr (moveListener q s)) = lastLineDirection s"
    "mousePoint (the (newLine (projr (moveListener q s))))
           = Some (horizontalFirst (projr (moveListener q s)), q)"
    using assms by (simp_all add: moveListener_def Let_def updateMousePoint_def)
  have h: "horizontalFirst (projr (moveListener q s)) =
           (if (left (lastLineDirection s) \<and> px q > px lp)
                 \<or> (right (lastLineDirection s) \<and> \<not> px q > px lp) then False
            else if (down (lastLineDirection s) \<and> py q < py lp)
                 \<or> (up (lastLineDirection s) \<and> \<not> py q < py lp) then True
            else lockedDirection q lp s)"
    using assms by (simp add: moveListener_def Let_def lockedDirection_def)
  have g: "\<not> doublesBack (lastLineDirection s)
                  (firstLeg (horizontalFirst (projr (moveListener q s))) lp q)"
    if "atMostOneDirection (lastLineDirection s)" and "offAxis (lastLineDirection s) lp q"
    using that unfolding h
    by (cases "up (lastLineDirection s)"; cases "right (lastLineDirection s)";
        cases "down (lastLineDirection s)"; cases "left (lastLineDirection s)")
       (auto simp: atMostOneDirection_def offAxis_def doublesBack_def firstLeg_def)
  from r h g show ?thesis by blast
qed

text \<open>
  After the segment to the right: a move back to \<open>(3, 3)\<close> is forced vertical-first,
  although the direction held was horizontal-first, and the path leaves downwards; a
  move on to \<open>(10, 3)\<close> is not forced, the lock keeps horizontal-first, and the path runs
  on to the right. After the segment down: a move back up to \<open>(3, 2)\<close> is forced
  horizontal-first, and the path leaves to the right.
\<close>

theorem move_forces_turn_behind_only_witness:
  "newLine afterSegmentRight =
     Some \<lparr>startPoint = pt 0 0, pushedPoints = [(True, pt 5 0)], mousePoint = Some (True, pt 5 0)\<rparr> \<and>
   lastPoint afterSegmentRight = Some (pt 5 0) \<and>
   lastLineDirection afterSegmentRight = \<lparr>up = False, right = True, down = False, left = False\<rparr> \<and>
   atMostOneDirection (lastLineDirection afterSegmentRight) \<and>
   offAxis (lastLineDirection afterSegmentRight) (pt 5 0) (pt 3 3) \<and>
   horizontalFirst afterSegmentRight \<and>
   horizontalFirst (projr (moveListener (pt 3 3) afterSegmentRight)) = False \<and>
   firstLeg False (pt 5 0) (pt 3 3) = \<lparr>up = False, right = False, down = True, left = False\<rparr> \<and>
   \<not> doublesBack (lastLineDirection afterSegmentRight)
       (firstLeg (horizontalFirst (projr (moveListener (pt 3 3) afterSegmentRight))) (pt 5 0) (pt 3 3)) \<and>
   offAxis (lastLineDirection afterSegmentRight) (pt 5 0) (pt 10 3) \<and>
   lockedDirection (pt 10 3) (pt 5 0) afterSegmentRight \<and>
   horizontalFirst (projr (moveListener (pt 10 3) afterSegmentRight)) = True \<and>
   firstLeg True (pt 5 0) (pt 10 3) = \<lparr>up = False, right = True, down = False, left = False\<rparr> \<and>
   lastPoint afterSegmentDown = Some (pt 0 5) \<and>
   lastLineDirection afterSegmentDown = \<lparr>up = False, right = False, down = True, left = False\<rparr> \<and>
   atMostOneDirection (lastLineDirection afterSegmentDown) \<and>
   offAxis (lastLineDirection afterSegmentDown) (pt 0 5) (pt 3 2) \<and>
   horizontalFirst afterSegmentDown = False \<and>
   horizontalFirst (projr (moveListener (pt 3 2) afterSegmentDown)) = True \<and>
   firstLeg True (pt 0 5) (pt 3 2) = \<lparr>up = False, right = True, down = False, left = False\<rparr> \<and>
   \<not> doublesBack (lastLineDirection afterSegmentDown)
       (firstLeg (horizontalFirst (projr (moveListener (pt 3 2) afterSegmentDown))) (pt 0 5) (pt 3 2))"
proof -
  have d: "atMostOneDirection (lastLineDirection afterSegmentRight)"
    "atMostOneDirection (lastLineDirection afterSegmentDown)"
    "offAxis (lastLineDirection afterSegmentRight) (pt 5 0) (pt 3 3)"
    "offAxis (lastLineDirection afterSegmentRight) (pt 5 0) (pt 10 3)"
    "offAxis (lastLineDirection afterSegmentDown) (pt 0 5) (pt 3 2)"
    "lockedDirection (pt 10 3) (pt 5 0) afterSegmentRight"
    by (simp_all add: afterSegmentRight_fields afterSegmentDown_fields atMostOneDirection_def
        offAxis_def lockedDirection_def pt_def)
  have f: "firstLeg False (pt 5 0) (pt 3 3) = \<lparr>up = False, right = False, down = True, left = False\<rparr>"
    "firstLeg True (pt 5 0) (pt 10 3) = \<lparr>up = False, right = True, down = False, left = False\<rparr>"
    "firstLeg True (pt 0 5) (pt 3 2) = \<lparr>up = False, right = True, down = False, left = False\<rparr>"
    by (simp_all add: firstLeg_def pt_def)
  have a: "horizontalFirst (projr (moveListener (pt 3 3) afterSegmentRight)) = False"
    using move_forces_turn_behind_only [OF afterSegmentRight_fields(1,2), of "pt 3 3"]
    by (simp add: afterSegmentRight_fields pt_def)
  have b: "horizontalFirst (projr (moveListener (pt 10 3) afterSegmentRight)) = True"
    using move_forces_turn_behind_only [OF afterSegmentRight_fields(1,2), of "pt 10 3"] d(6)
    by (simp add: afterSegmentRight_fields pt_def)
  have c: "horizontalFirst (projr (moveListener (pt 3 2) afterSegmentDown)) = True"
    using move_forces_turn_behind_only [OF afterSegmentDown_fields(1,2), of "pt 3 2"]
    by (simp add: afterSegmentDown_fields pt_def)
  show ?thesis
    unfolding a b c f
    using d by (simp add: afterSegmentRight_fields afterSegmentDown_fields doublesBack_def)
qed

text \<open>
  The restriction to a cursor off the axis is needed. After the segment down to
  \<open>(0, 5)\<close>, a move straight back up to \<open>(0, 2)\<close> is forced horizontal-first, the
  horizontal leg is empty, and the path leaves upwards, over the preceding segment.
\<close>

lemma on_axis_runs_back:
  "horizontalFirst (projr (moveListener (pt 0 2) afterSegmentDown)) \<and>
   \<not> offAxis (lastLineDirection afterSegmentDown) (pt 0 5) (pt 0 2) \<and>
   doublesBack (lastLineDirection afterSegmentDown)
     (firstLeg (horizontalFirst (projr (moveListener (pt 0 2) afterSegmentDown))) (pt 0 5) (pt 0 2))"
proof -
  have h: "horizontalFirst (projr (moveListener (pt 0 2) afterSegmentDown)) = True"
    by (simp add: moveListener_def afterSegmentDown_fields Let_def pt_def)
  show ?thesis
    unfolding h
    by (simp add: afterSegmentDown_fields offAxis_def doublesBack_def firstLeg_def pt_def)
qed

section \<open>SelectionController: loops over the heap\<close>

lemma foldl_updateShape_eq:
  "distinct xs \<Longrightarrow>
   foldl (updateShape g) s xs = s\<lparr>heap := (\<lambda>j. if j \<in> set xs then g (heap s j) else heap s j)\<rparr>"
proof (induction xs arbitrary: s)
  case Nil
  then show ?case by simp
next
  case (Cons x xs)
  let ?s = "updateShape g s x"
  have h: "(\<lambda>j. if j \<in> set xs then g (heap ?s j) else heap ?s j)
        = (\<lambda>j. if j \<in> set (x # xs) then g (heap s j) else heap s j)"
    using Cons.prems by (auto simp: fun_eq_iff updateShape_def)
  have "foldl (updateShape g) s (x # xs) = foldl (updateShape g) ?s xs"
    by simp
  also have "\<dots> = ?s\<lparr>heap := (\<lambda>j. if j \<in> set xs then g (heap ?s j) else heap ?s j)\<rparr>"
    using Cons.prems by (intro Cons.IH) simp
  also have "\<dots> = ?s\<lparr>heap := (\<lambda>j. if j \<in> set (x # xs) then g (heap s j) else heap s j)\<rparr>"
    unfolding h ..
  also have "\<dots> = s\<lparr>heap := (\<lambda>j. if j \<in> set (x # xs) then g (heap s j) else heap s j)\<rparr>"
    by (simp add: updateShape_def)
  finally show ?case .
qed

lemma flipLine_updateShape: "flipLine h oc fx fy = updateShape (flipLineShape h oc fx fy)"
  by (simp add: fun_eq_iff flipLine_def updateShape_def flipLineShape_def call_def Let_def
      pt_def minusPoint_def)

lemma flipComponent_updateShape:
  "flipComponent h oc fx fy = updateShape (flipComponentShape h oc fx fy)"
  by (simp add: fun_eq_iff flipComponent_def updateShape_def flipComponentShape_def call_def
      Let_def pt_def minusPoint_def)

lemma foldl_mergeInto_Some: "\<exists>b'. foldl (mergeInto h) (Some b) xs = Some b'"
  by (induction xs arbitrary: b) (simp_all add: mergeInto_def)

lemma getOverallBoundingBox_None: "getOverallBoundingBox s = None \<longleftrightarrow> \<not> hasSelection s"
proof (cases "currentlySelectedLines s")
  case Nil
  show ?thesis
  proof (cases "currentlySelectedComponents s")
    case Nil
    with \<open>currentlySelectedLines s = []\<close> show ?thesis
      by (simp add: getOverallBoundingBox_def hasSelection_def)
  next
    case (Cons c cs)
    with \<open>currentlySelectedLines s = []\<close> foldl_mergeInto_Some [of "heap s" "bbox (heap s c)" cs]
    show ?thesis
      by (auto simp: getOverallBoundingBox_def hasSelection_def mergeInto_def)
  qed
next
  case (Cons l ls)
  obtain b where b: "foldl (mergeInto (heap s)) (Some (bbox (heap s l))) ls = Some b"
    using foldl_mergeInto_Some by blast
  obtain b' where "foldl (mergeInto (heap s)) (Some b) (currentlySelectedComponents s) = Some b'"
    using foldl_mergeInto_Some by blast
  with Cons b show ?thesis
    by (simp add: getOverallBoundingBox_def hasSelection_def mergeInto_def)
qed

lemma flipSelection_heap:
  assumes "distinct (currentlySelectedLines s)"
    and "distinct (currentlySelectedComponents s)"
    and "getOverallBoundingBox s = Some b"
  shows "flipSelection h s =
    Inr (s\<lparr>heap := (\<lambda>j.
      if j \<in> set (currentlySelectedComponents s) then
        flipComponentShape h (pt (cx b) (cy b)) (if h then 0 else - 2) (if h then - 2 else 0)
          (if j \<in> set (currentlySelectedLines s) then
             flipLineShape h (pt (cx b) (cy b)) (if h then 0 else - 2) (if h then - 2 else 0)
               (heap s j)
           else heap s j)
      else if j \<in> set (currentlySelectedLines s) then
        flipLineShape h (pt (cx b) (cy b)) (if h then 0 else - 2) (if h then - 2 else 0) (heap s j)
      else heap s j)\<rparr>)"
proof -
  have sel: "hasSelection s"
    using assms(3) getOverallBoundingBox_None [of s] by auto
  show ?thesis
    using assms sel
    by (simp add: flipSelection_def Let_def flipLine_updateShape flipComponent_updateShape
        foldl_updateShape_eq fun_eq_iff cong: if_cong)
qed

lemma exampleBoxes:
  "getOverallBoundingBox emptySelection = None"
  "getOverallBoundingBox twoLinesSelected
     = Some \<lparr>box_x = 0, box_y = 0, box_width = 12, box_height = 22\<rparr>"
  "getOverallBoundingBox allSelected
     = Some \<lparr>box_x = 0, box_y = 0, box_width = 12, box_height = 22\<rparr>"
  by (simp_all add: getOverallBoundingBox_def twoLinesSelected_def allSelected_def
      emptySelection_def mergeInto_def exampleHeap_def box_merge_def Let_def)

section \<open>SelectionController: group transforms\<close>

text \<open>
  Claim C4 as stated fails. Two wires are selected, with the centres \<open>(1, 1)\<close> and
  \<open>(11, 21)\<close>; the pivot is \<open>(6, 11)\<close>, so the first wire's centre is off the pivot by
  \<open>(- 5, - 10)\<close>. With \<open>horizontal = true\<close> the wire is flipped and moved by
  \<open>(0, 20)\<close>: the x-offset is multiplied by 0 and the y-offset is doubled and negated.
  With \<open>horizontal = false\<close> it is moved by \<open>(10, 0)\<close>.
\<close>

theorem flip_horizontal_counterexample:
  "\<not> isl (flipSelection True twoLinesSelected) \<and>
   getOverallBoundingBox twoLinesSelected
     = Some \<lparr>box_x = 0, box_y = 0, box_width = 12, box_height = 22\<rparr> \<and>
   cx (bbox (heap twoLinesSelected 0)) - 6 = - 5 \<and>
   cy (bbox (heap twoLinesSelected 0)) - 11 = - 10 \<and>
   calls (heap (projr (flipSelection True twoLinesSelected)) 0) = [Flip True, MoveRel (pt 0 20)] \<and>
   calls (heap (projr (flipSelection False twoLinesSelected)) 0) = [Flip False, MoveRel (pt 10 0)]"
proof -
  have d: "distinct (currentlySelectedLines twoLinesSelected)"
    "distinct (currentlySelectedComponents twoLinesSelected)"
    "currentlySelectedLines twoLinesSelected = [0, 1]"
    "currentlySelectedComponents twoLinesSelected = []"
    "heap twoLinesSelected = exampleHeap"
    by (simp_all add: twoLinesSelected_def emptySelection_def)
  show ?thesis
    by (simp add: flipSelection_heap [OF d(1) d(2) exampleBoxes(2)] exampleBoxes d
        flipLineShape_def exampleHeap_def cx_def cy_def pt_def)
qed

text \<open>
  Claim C4, amended. On a selection without repeated objects, \<open>flipSelection\<close> calls on
  each selected wire, and on each selected component, \<open>flip(horizontal)\<close> and then
  \<open>moveRel\<close> by the offset of the object's own centre (the centre of the bounding box of
  a wire, the anchor point of a component) from the shared pivot, the centre of the
  overall bounding box, with one coordinate doubled and negated and the other multiplied
  by zero: with \<open>horizontal = true\<close> the y-offset is doubled and negated and there is no
  translation in x; with \<open>horizontal = false\<close> the x-offset is doubled and negated and
  there is no translation in y. A node component recalculates its snapping points
  afterwards, and no other object is touched.
\<close>

theorem flipSelection_translation:
  assumes "distinct (currentlySelectedLines s)"
    and "distinct (currentlySelectedComponents s)"
    and "set (currentlySelectedLines s) \<inter> set (currentlySelectedComponents s) = {}"
    and "getOverallBoundingBox s = Some b"
  shows "\<not> isl (flipSelection h s) \<and>
    (l \<in> set (currentlySelectedLines s) \<longrightarrow>
       calls (heap (projr (flipSelection h s)) l) = calls (heap s l) @
         [Flip h,
          MoveRel (pt ((cx (bbox (heap s l)) - cx b) * (if h then 0 else - 2))
                      ((cy (bbox (heap s l)) - cy b) * (if h then - 2 else 0)))]) \<and>
    (c \<in> set (currentlySelectedComponents s) \<longrightarrow>
       calls (heap (projr (flipSelection h s)) c) = calls (heap s c) @
         [Flip h,
          MoveRel (pt ((px (anchorPoint (heap s c)) - cx b) * (if h then 0 else - 2))
                      ((py (anchorPoint (heap s c)) - cy b) * (if h then - 2 else 0)))]
         @ (if isNodeInstance (heap s c) then [RecalculateSnappingPoints] else [])) \<and>
    (obj \<notin> set (currentlySelectedLines s) \<and> obj \<notin> set (currentlySelectedComponents s) \<longrightarrow>
       heap (projr (flipSelection h s)) obj = heap s obj)"
  using assms(3)
  by (auto simp: flipSelection_heap [OF assms(1) assms(2) assms(4)] flipLineShape_def
      flipComponentShape_def pt_def)

theorem flipSelection_translation_witness:
  "distinct (currentlySelectedLines allSelected) \<and>
   distinct (currentlySelectedComponents allSelected) \<and>
   set (currentlySelectedLines allSelected) \<inter> set (currentlySelectedComponents allSelected) = {} \<and>
   getOverallBoundingBox allSelected
     = Some \<lparr>box_x = 0, box_y = 0, box_width = 12, box_height = 22\<rparr> \<and>
   1 \<in> set (currentlySelectedLines allSelected) \<and>
   2 \<in> set (currentlySelectedComponents allSelected) \<and>
   calls (heap (projr (flipSelection True allSelected)) 1) = [Flip True, MoveRel (pt 0 (- 20))] \<and>
   calls (heap (projr (flipSelection True allSelected)) 2)
     = [Flip True, MoveRel (pt 0 8), RecalculateSnappingPoints] \<and>
   calls (heap (projr (flipSelection False allSelected)) 1) = [Flip False, MoveRel (pt (- 10) 0)] \<and>
   calls (heap (projr (flipSelection False allSelected)) 2)
     = [Flip False, MoveRel (pt 2 0), RecalculateSnappingPoints]"
proof -
  have d: "distinct (currentlySelectedLines allSelected)"
    "distinct (currentlySelectedComponents allSelected)"
    "set (currentlySelectedLines allSelected) \<inter> set (currentlySelectedComponents allSelected) = {}"
    by (simp_all add: allSelected_def emptySelection_def)
  have m: "currentlySelectedLines allSelected = [0, 1]"
    "currentlySelectedComponents allSelected = [2]"
    "heap allSelected = exampleHeap"
    by (simp_all add: allSelected_def emptySelection_def)
  show ?thesis
    using flipSelection_translation [OF d exampleBoxes(3), of True 1 2 0]
      flipSelection_translation [OF d exampleBoxes(3), of False 1 2 0]
    by (simp add: m exampleBoxes exampleHeap_def cx_def cy_def pt_def)
qed

text \<open>Without a selection there is no overall bounding box, and three operations do nothing.\<close>

lemma no_selection_no_op:
  assumes "\<not> hasSelection s"
  shows "rotateSelection rot angleDeg s = Inr s"
    and "flipSelection horizontal s = Inr s"
    and "moveSelectionRel delta s = s"
    and "getOverallBoundingBox s = None"
  using assms
  by (simp_all add: rotateSelection_def flipSelection_def moveSelectionRel_def hasSelection_def
      getOverallBoundingBox_def)

lemma no_selection_moveSelectionTo:
  "\<not> hasSelection s \<Longrightarrow> moveSelectionTo position s = Inl TypeError"
  using getOverallBoundingBox_None [of s] by (simp add: moveSelectionTo_def)

text \<open>
  Claim C5. On an empty selection every group transform is to be a silent no-op.
  \<open>rotateSelection\<close> and \<open>flipSelection\<close> return at their guard and
  \<open>moveSelectionRel\<close> loops over nothing, but \<open>moveSelectionTo\<close> has no guard: it reads
  \<open>cx\<close> of the \<open>null\<close> that \<open>getOverallBoundingBox\<close> returns, and throws.
\<close>

theorem transforms_on_empty_selection:
  "rotateSelection rot angleDeg emptySelection = Inr emptySelection \<and>
   flipSelection horizontal emptySelection = Inr emptySelection \<and>
   moveSelectionRel delta emptySelection = emptySelection \<and>
   moveSelectionTo position emptySelection = Inl TypeError"
  by (simp add: rotateSelection_def flipSelection_def moveSelectionRel_def moveSelectionTo_def
      hasSelection_def exampleBoxes emptySelection_def [THEN arg_cong [where f = currentlySelectedLines]]
      emptySelection_def [THEN arg_cong [where f = currentlySelectedComponents]])

section \<open>SelectionController: the preview pass\<close>

lemma highlightOnly_iff:
  "highlightOnly a b \<longleftrightarrow>
     bbox b = bbox a \<and> anchorPoint b = anchorPoint a \<and> isNodeInstance b = isNodeInstance a \<and>
     (\<exists>cs. calls b = calls a @ cs \<and> list_all isHighlightCall cs)"
proof -
  have "(take (length (calls a)) (calls b) = calls a \<and>
         list_all isHighlightCall (drop (length (calls a)) (calls b)))
        \<longleftrightarrow> (\<exists>cs. calls b = calls a @ cs \<and> list_all isHighlightCall cs)"
  proof
    assume h: "take (length (calls a)) (calls b) = calls a \<and>
         list_all isHighlightCall (drop (length (calls a)) (calls b))"
    have "calls b = take (length (calls a)) (calls b) @ drop (length (calls a)) (calls b)"
      by simp
    with h have "calls b = calls a @ drop (length (calls a)) (calls b)" by simp
    with h show "\<exists>cs. calls b = calls a @ cs \<and> list_all isHighlightCall cs" by blast
  next
    assume "\<exists>cs. calls b = calls a @ cs \<and> list_all isHighlightCall cs"
    then show "take (length (calls a)) (calls b) = calls a \<and>
         list_all isHighlightCall (drop (length (calls a)) (calls b))" by auto
  qed
  then show ?thesis by (simp add: highlightOnly_def)
qed

lemma highlightOnly_refl: "highlightOnly a a"
  by (simp add: highlightOnly_def)

lemma highlightOnly_trans: "highlightOnly a b \<Longrightarrow> highlightOnly b c \<Longrightarrow> highlightOnly a c"
  unfolding highlightOnly_iff by auto

lemma highlightOnly_call:
  "isHighlightCall c \<Longrightarrow> highlightOnly (heap s obj) (heap (call c o' s) obj)"
  by (simp add: highlightOnly_iff call_def)

lemma call_more: "(call c o' s)\<lparr>heap := h\<rparr> = s\<lparr>heap := h\<rparr>"
  by (simp add: call_def)

lemma showInstance_more: "(showInstance inside b s i)\<lparr>heap := h\<rparr> = s\<lparr>heap := h\<rparr>"
  by (simp add: showInstance_def Let_def call_more)

lemma showLine_more: "(showLine inside b s i)\<lparr>heap := h\<rparr> = s\<lparr>heap := h\<rparr>"
  by (simp add: showLine_def Let_def call_more)

lemma showInstance_highlight: "highlightOnly (heap s obj) (heap (showInstance inside b s i) obj)"
  by (simp add: showInstance_def Let_def highlightOnly_call isHighlightCall_def)

lemma showLine_highlight: "highlightOnly (heap s obj) (heap (showLine inside b s i) obj)"
  by (simp add: showLine_def Let_def highlightOnly_call isHighlightCall_def)

lemma foldl_more:
  assumes "\<And>s i h. (f s i)\<lparr>heap := h\<rparr> = s\<lparr>heap := h\<rparr>"
  shows "(foldl f s xs)\<lparr>heap := h\<rparr> = s\<lparr>heap := h\<rparr>"
  by (induction xs arbitrary: s) (simp_all add: assms)

lemma foldl_highlight:
  assumes "\<And>s i obj. highlightOnly (heap s obj) (heap (f s i) obj)"
  shows "highlightOnly (heap s obj) (heap (foldl f s xs) obj)"
proof (induction xs arbitrary: s)
  case Nil
  show ?case by (simp add: highlightOnly_refl)
next
  case (Cons x xs)
  have "highlightOnly (heap s obj) (heap (f s x) obj)" by (rule assms)
  moreover have "highlightOnly (heap (f s x) obj) (heap (foldl f (f s x) xs) obj)" by (rule Cons.IH)
  ultimately show ?case by (simp add: highlightOnly_trans)
qed

lemma showSelection_private_more:
  "(showSelection_private inside s)\<lparr>heap := h\<rparr> = s\<lparr>heap := h\<rparr>"
  by (simp add: showSelection_private_def Let_def foldl_more showInstance_more showLine_more)

lemma showSelection_private_highlight:
  "highlightOnly (heap s obj) (heap (showSelection_private inside s) obj)"
  unfolding showSelection_private_def Let_def
  by (rule highlightOnly_trans [OF foldl_highlight foldl_highlight])
     (simp_all add: showInstance_highlight showLine_highlight)

lemma more_fields:
  assumes "s'\<lparr>heap := h\<rparr> = s\<lparr>heap := h\<rparr>"
  shows "currentlySelectedComponents s' = currentlySelectedComponents s"
    and "currentlySelectedLines s' = currentlySelectedLines s"
    and "instances s' = instances s"
    and "lines s' = lines s"
    and "selectionMode s' = selectionMode s"
    and "selectionRectangle s' = selectionRectangle s"
    and "selectionEnabled s' = selectionEnabled s"
    and "currentlyDragging s' = currentlyDragging s"
    and "selectionStartPosition s' = selectionStartPosition s"
proof -
  have "currentlySelectedComponents (s'\<lparr>heap := h\<rparr>) = currentlySelectedComponents (s\<lparr>heap := h\<rparr>)"
       "currentlySelectedLines (s'\<lparr>heap := h\<rparr>) = currentlySelectedLines (s\<lparr>heap := h\<rparr>)"
       "instances (s'\<lparr>heap := h\<rparr>) = instances (s\<lparr>heap := h\<rparr>)"
       "lines (s'\<lparr>heap := h\<rparr>) = lines (s\<lparr>heap := h\<rparr>)"
       "selectionMode (s'\<lparr>heap := h\<rparr>) = selectionMode (s\<lparr>heap := h\<rparr>)"
       "selectionRectangle (s'\<lparr>heap := h\<rparr>) = selectionRectangle (s\<lparr>heap := h\<rparr>)"
       "selectionEnabled (s'\<lparr>heap := h\<rparr>) = selectionEnabled (s\<lparr>heap := h\<rparr>)"
       "currentlyDragging (s'\<lparr>heap := h\<rparr>) = currentlyDragging (s\<lparr>heap := h\<rparr>)"
       "selectionStartPosition (s'\<lparr>heap := h\<rparr>) = selectionStartPosition (s\<lparr>heap := h\<rparr>)"
    by (simp_all only: assms)
  then show "currentlySelectedComponents s' = currentlySelectedComponents s"
    and "currentlySelectedLines s' = currentlySelectedLines s"
    and "instances s' = instances s"
    and "lines s' = lines s"
    and "selectionMode s' = selectionMode s"
    and "selectionRectangle s' = selectionRectangle s"
    and "selectionEnabled s' = selectionEnabled s"
    and "currentlyDragging s' = currentlyDragging s"
    and "selectionStartPosition s' = selectionStartPosition s"
    by simp_all
qed

lemma showSelection_private_highlight_rect:
  "highlightOnly (heap s obj)
     (heap (showSelection_private inside (s\<lparr>selectionRectangle := r\<rparr>)) obj)"
  using showSelection_private_highlight [of "s\<lparr>selectionRectangle := r\<rparr>" obj inside] by simp

text \<open>
  Claim C9. The preview pass that runs on every pointer move while dragging leaves
  \<open>currentlySelectedComponents\<close> and \<open>currentlySelectedLines\<close> as they are, as well
  as the document's arrays; of every object only the highlight changes, through calls of
  \<open>showBoundingBox\<close> and \<open>hideBoundingBox\<close>. This holds for whatever
  \<open>isInsideSelectionRectangle\<close> computes.
\<close>

theorem preview_keeps_committed_selection:
  "currentlySelectedComponents (mousemove inside p s) = currentlySelectedComponents s \<and>
   currentlySelectedLines (mousemove inside p s) = currentlySelectedLines s \<and>
   currentlySelectedComponents (showSelection_private inside s) = currentlySelectedComponents s \<and>
   currentlySelectedLines (showSelection_private inside s) = currentlySelectedLines s \<and>
   instances (mousemove inside p s) = instances s \<and>
   lines (mousemove inside p s) = lines s \<and>
   highlightOnly (heap s obj) (heap (mousemove inside p s) obj)"
proof -
  have a: "currentlySelectedComponents (showSelection_private inside t) = currentlySelectedComponents t"
    "currentlySelectedLines (showSelection_private inside t) = currentlySelectedLines t"
    "instances (showSelection_private inside t) = instances t"
    "lines (showSelection_private inside t) = lines t" for t
    by (simp_all add: more_fields [OF showSelection_private_more])
  show ?thesis
    by (simp add: mousemove_def Let_def a showSelection_private_highlight_rect highlightOnly_refl
        split: prod.splits)
qed

section \<open>ComponentSymbol: anchors and the metadata check\<close>

lemma decimals:
  "numberRegEx ''2''" "numberRegEx ''3''" "parseFloat ''2'' = 2" "parseFloat ''3'' = 3"
  "numberRegEx ''10''" "parseFloat ''10'' = 10"
  by (simp_all add: numberRegEx_def parseFloat_def isDigit_def parseDigits_def digitValue_def)

lemma getBaseInformation_names:
  "svgMetadataElement (getBaseInformation toPx e) = metadataChild e"
  "tikzName (getBaseInformation toPx e) = optAttribute (findComponentInformation e) ''tikzName''"
  "displayName (getBaseInformation toPx e) =
     (case optAttribute (findComponentInformation e) ''displayName'' of
        None \<Rightarrow> optAttribute (findComponentInformation e) ''tikzName''
      | Some d \<Rightarrow> Some d)"
  by (simp_all add: getBaseInformation_def Let_def)

lemma tikzName_needs_metadata:
  "metadataChild e = None \<Longrightarrow> optAttribute (findComponentInformation e) k = None"
  by (simp add: findComponentInformation_def optAttribute_def)

text \<open>
  Claim C7 as stated fails. The transistor's metadata has no \<open>displayName\<close> attribute, a
  required identifying field is absent, and the construction succeeds: the display name
  falls back to the tikz name.
\<close>

theorem missing_displayName_counterexample:
  "optAttribute (findComponentInformation transistorElement) ''displayName'' = None \<and>
   \<not> isl (newComponentSymbol plainPx transistorElement None) \<and>
   symbolDisplayName (projr (newComponentSymbol plainPx transistorElement None)) = ''nmos''"
  by (simp add: newComponentSymbol_def initSymbol_def getBaseInformation_def
      findComponentInformation_def optAttribute_def transistorElement_def Let_def gatePin_def
      parseAnchor_def orElse_def ensureInPx_def plainPx_def decimals pt_def)

text \<open>
  Claim C7, amended. Constructing a ComponentSymbol throws, and what it throws is the
  missing-metadata error, exactly in these cases. With base information passed in: its
  metadata element is \<open>null\<close>, or its display name or its tikz name is \<open>null\<close> or empty.
  From the symbol element alone: the metadata has no non-empty \<open>tikzName\<close> attribute
  (as when the metadata element or the component information in it is missing), or it
  has an empty \<open>displayName\<close> attribute. A missing \<open>displayName\<close> attribute is no
  error. In every other case the construction succeeds.
\<close>

theorem newComponentSymbol_fails_iff:
  "(isl (newComponentSymbol toPx symbolElement (Some b)) \<longleftrightarrow>
      svgMetadataElement b = None \<or> \<not> truthy (displayName b) \<or> \<not> truthy (tikzName b)) \<and>
   (isl (newComponentSymbol toPx symbolElement None) \<longleftrightarrow>
      \<not> truthy (optAttribute (findComponentInformation symbolElement) ''tikzName'') \<or>
      optAttribute (findComponentInformation symbolElement) ''displayName'' = Some []) \<and>
   (isl (newComponentSymbol toPx symbolElement bo) \<longleftrightarrow>
      newComponentSymbol toPx symbolElement bo = Inl MissingMetadata)"
proof -
  have 1: "isl (newComponentSymbol toPx symbolElement (Some b)) \<longleftrightarrow>
      svgMetadataElement b = None \<or> \<not> truthy (displayName b) \<or> \<not> truthy (tikzName b)"
    by (simp add: newComponentSymbol_def)
  have 2: "isl (newComponentSymbol toPx symbolElement None) \<longleftrightarrow>
      \<not> truthy (optAttribute (findComponentInformation symbolElement) ''tikzName'') \<or>
      optAttribute (findComponentInformation symbolElement) ''displayName'' = Some []"
    using tikzName_needs_metadata [of symbolElement "''tikzName''"]
    by (cases "metadataChild symbolElement")
       (auto simp: newComponentSymbol_def getBaseInformation_names split: option.splits)
  have 3: "isl (newComponentSymbol toPx symbolElement bo) \<longleftrightarrow>
      newComponentSymbol toPx symbolElement bo = Inl MissingMetadata"
    by (simp add: newComponentSymbol_def Let_def)
  from 1 2 3 show ?thesis by blast
qed

text \<open>
  The transistor, which has no \<open>displayName\<close>, is constructed; the symbol with a
  \<open>displayName\<close> and no \<open>tikzName\<close> is not.
\<close>

theorem newComponentSymbol_fails_iff_witness:
  "optAttribute (findComponentInformation transistorElement) ''tikzName'' = Some ''nmos'' \<and>
   optAttribute (findComponentInformation transistorElement) ''displayName'' = None \<and>
   \<not> isl (newComponentSymbol plainPx transistorElement None) \<and>
   optAttribute (findComponentInformation unnamedElement) ''tikzName'' = None \<and>
   newComponentSymbol plainPx unnamedElement None = Inl MissingMetadata"
proof -
  have t: "optAttribute (findComponentInformation transistorElement) ''tikzName'' = Some ''nmos''"
    "optAttribute (findComponentInformation transistorElement) ''displayName'' = None"
    by (simp_all add: findComponentInformation_def optAttribute_def transistorElement_def)
  have u: "optAttribute (findComponentInformation unnamedElement) ''tikzName'' = None"
    by (simp add: findComponentInformation_def optAttribute_def unnamedElement_def)
  show ?thesis
    using newComponentSymbol_fails_iff
        [where toPx = plainPx and symbolElement = transistorElement and bo = None]
      newComponentSymbol_fails_iff
        [where toPx = plainPx and symbolElement = unnamedElement and bo = None]
    unfolding t u by auto
qed





end
